theory Spec2Isabelle
  imports Complex_Main "HOL-Library.AList"
begin

section \<open>Values of the report script\<close>

text \<open>
  \<^verbatim>\<open>web_tool.py\<close> holds two programs: the Flask handlers and \<^verbatim>\<open>serialize_game\<close>
  (Python), and the script of \<^verbatim>\<open>REPORT_HTML\<close> (JavaScript) that renders the
  serialized match in the browser.

  A JavaScript number is a double: a finite value, or one of the three values that are
  not finite. A finite double is modelled by the rational number it denotes, so a slot
  such as 1.5 is a value of the model. (Rationals that are no double are further values
  of the type; every statement below holds for them too. The only arithmetic the script
  does on such a number is \<^verbatim>\<open>n - 1\<close> for a slot \<open>n\<close> between 1 and the length of a
  roster, which is exact on doubles.)
\<close>

datatype jsnum = Finite rat | NaN | PosInfinity | NegInfinity

text \<open>
  \<^verbatim>\<open>String(n)\<close> of an integer: its decimal digits, with a minus sign when negative
  (JavaScript switches to exponent notation from \<open>10\<^sup>2\<^sup>1\<close> on, far above any code).
\<close>

definition digit_char :: "nat \<Rightarrow> char" where
  "digit_char d = ''0123456789'' ! d"

fun str_nat :: "nat \<Rightarrow> string" where
  "str_nat n =
     (if n < 10 then [digit_char n] else str_nat (n div 10) @ [digit_char (n mod 10)])"

declare str_nat.simps [simp del]

definition js_String :: "int \<Rightarrow> string" where
  "js_String i = (if i < 0 then CHR ''-'' # str_nat (nat (- i)) else str_nat (nat i))"

text \<open>Reading the digits back; used only to show that the rendering is injective.\<close>

definition digit_val :: "char \<Rightarrow> nat" where
  "digit_val c = of_char c - 48"

definition nat_of_str :: "string \<Rightarrow> nat" where
  "nat_of_str s = foldl (\<lambda>acc c. 10 * acc + digit_val c) 0 s"

text \<open>
  What the script reads from the feed before it converts it: a number, a string, a
  boolean, \<^verbatim>\<open>null\<close>, or nothing at all (\<^verbatim>\<open>undefined\<close>, a missing field). An array
  or an object converts to a number through the string it converts to, so it is the
  \<open>JSString\<close> of that string here.
\<close>

datatype jsval = JSNumber jsnum | JSString string | JSBoolean bool | JSNull | JSUndefined

text \<open>
  Two conversions of the JavaScript engine are not written out but taken as they are,
  whatever they are: the number a string parses to (\<^verbatim>\<open>StringToNumber\<close>: white space
  trimmed, decimal, hexadecimal, exponents, rounding) and the digits of a number that is
  not whole (the shortest decimal that reads back as the same double).
\<close>

record js_engine =
  StringToNumber :: "string \<Rightarrow> jsnum"
  FractionToString :: "rat \<Rightarrow> string"

text \<open>\<^verbatim>\<open>Number(v)\<close>\<close>

fun js_Number :: "js_engine \<Rightarrow> jsval \<Rightarrow> jsnum" where
  "js_Number rt (JSNumber n) = n"
| "js_Number rt (JSString s) = StringToNumber rt s"
| "js_Number rt (JSBoolean b) = (if b then Finite 1 else Finite 0)"
| "js_Number rt JSNull = Finite 0"
| "js_Number rt JSUndefined = NaN"

section \<open>The report's data: teams, players, shot events\<close>

text \<open>
  \<^verbatim>\<open>data.teamHome\<close> and \<^verbatim>\<open>data.teamAway\<close> as the script reads them: a name
  and the ordered players, each with a name.
\<close>

record js_player =
  name :: string

record js_team =
  team_name :: string
  team_players :: "js_player list"

text \<open>
  A shot event. \<open>attacker\<close> and \<open>defender\<close> are the slots as the feed has them, before
  any conversion. \<open>attacking_team\<close> and \<open>defending_team\<close> hold the value
  \<^verbatim>\<open>Number(...)\<close> of the field, which is how every function of the script reads them;
  \<open>shot_type\<close> and \<open>shot_result\<close> are the integer codes; \<open>gameclock\<close> is \<open>None\<close>
  when the field is not of type number.
\<close>

record shot_event =
  attacking_team :: jsnum
  defending_team :: jsnum
  attacker :: jsval
  defender :: jsval
  shot_type :: int
  shot_result :: int
  gameclock :: "jsnum option"

section \<open>Slot resolution\<close>

text \<open>
  \<^verbatim>\<open>
  function normalizeSlot(rawSlot, playersLen) {
    const n = Number(rawSlot);
    if (!Number.isFinite(n)) return null;
    if (n >= 1 && n <= playersLen) return n - 1;
    if (n === 0) return null;
    return null;
  }
  \<close>
  \<open>None\<close> is \<^verbatim>\<open>null\<close>. The result is a number, \<open>n - 1\<close>; nothing in the function
  makes it a whole number.
\<close>

definition normalizeSlot :: "js_engine \<Rightarrow> jsval \<Rightarrow> nat \<Rightarrow> rat option" where
  "normalizeSlot rt rawSlot playersLen =
     (case js_Number rt rawSlot of
        NaN \<Rightarrow> None
      | PosInfinity \<Rightarrow> None
      | NegInfinity \<Rightarrow> None
      | Finite n \<Rightarrow>
          if 1 \<le> n \<and> n \<le> of_nat playersLen then Some (n - 1)
          else if n = 0 then None
          else None)"

text \<open>
  Reading an array at a number, \<^verbatim>\<open>xs[idx]\<close>: there is an element only at the
  positions 0, 1, ... below the length, so only when \<open>idx\<close> is one of these whole
  numbers. \<open>array_position\<close> is that position; at any other number the array gives
  \<^verbatim>\<open>undefined\<close>.
\<close>

definition array_position :: "nat \<Rightarrow> rat \<Rightarrow> nat option" where
  "array_position len idx = find (\<lambda>i. of_nat i = idx) [0 ..< len]"

text \<open>
  \<^verbatim>\<open>
  function resolvePlayerName(teamObj, rawSlot, fallback) {
    if (!teamObj || !Array.isArray(teamObj.players)) return fallback;
    const idx = normalizeSlot(rawSlot, teamObj.players.length);
    if (idx === null) return fallback;
    return teamObj.players[idx]?.name || fallback;
  }
  \<close>
  A missing team is \<open>None\<close>; \<open>team_players\<close> is a list by its type. Where the array
  has no element the optional chain gives \<^verbatim>\<open>undefined\<close>, and an empty name is falsy:
  both give the fallback.
\<close>

definition resolvePlayerName ::
  "js_engine \<Rightarrow> js_team option \<Rightarrow> jsval \<Rightarrow> string \<Rightarrow> string" where
  "resolvePlayerName rt teamObj rawSlot fallback =
     (case teamObj of
        None \<Rightarrow> fallback
      | Some t \<Rightarrow>
          (case normalizeSlot rt rawSlot (length (team_players t)) of
             None \<Rightarrow> fallback
           | Some idx \<Rightarrow>
               (case array_position (length (team_players t)) idx of
                  None \<Rightarrow> fallback
                | Some i \<Rightarrow>
                    if name (team_players t ! i) = [] then fallback
                    else name (team_players t ! i))))"

section \<open>Labels and periods\<close>

text \<open>
  JavaScript's \<^verbatim>\<open>===\<close> on two numbers: \<open>NaN\<close> equals nothing, itself included.
\<close>

definition js_strict_eq :: "jsnum \<Rightarrow> jsnum \<Rightarrow> bool" where
  "js_strict_eq x y = (x \<noteq> NaN \<and> y \<noteq> NaN \<and> x = y)"

text \<open>
  \<^verbatim>\<open>String(n)\<close> of a number, as a template literal renders it: the decimal digits of
  a whole number, the engine's digits of any other finite number.
\<close>

fun js_String_num :: "js_engine \<Rightarrow> jsnum \<Rightarrow> string" where
  "js_String_num rt (Finite r) =
     (if of_int \<lfloor>r\<rfloor> = r then js_String \<lfloor>r\<rfloor> else FractionToString rt r)"
| "js_String_num rt NaN = ''NaN''"
| "js_String_num rt PosInfinity = ''Infinity''"
| "js_String_num rt NegInfinity = ''-Infinity''"

text \<open>\<^verbatim>\<open>label.includes(sub)\<close>: \<open>sub\<close> occurs in \<open>label\<close> as a contiguous run.\<close>

fun js_includes :: "string \<Rightarrow> string \<Rightarrow> bool" where
  "js_includes [] sub = (sub = [])"
| "js_includes (c # cs) sub = (take (length sub) (c # cs) = sub \<or> js_includes cs sub)"

definition shotTypeLabel :: "(string \<times> string) list" where
  "shotTypeLabel =
     [(''100'', ''3PT Default''), (''101'', ''3PT Top Key''), (''102'', ''3PT Wing''),
      (''103'', ''3PT Corner''), (''104'', ''3PT Long''), (''105'', ''3PT Halfcourt''),
      (''200'', ''2PT Default''), (''201'', ''2PT Elbow''), (''202'', ''2PT Wing''),
      (''203'', ''2PT Baseline''), (''204'', ''2PT Top Key''),
      (''401'', ''Dunk''), (''402'', ''Layup''), (''403'', ''Post Move''),
      (''404'', ''Fade Away''), (''405'', ''Hook''), (''406'', ''Off Dribble J''),
      (''407'', ''Putback Dunk''), (''408'', ''Tip-in''), (''409'', ''Rebound Shot''),
      (''410'', ''Dunk''), (''411'', ''Driving Layup'')]"

text \<open>
  The keys of \<open>shotTypeLabel\<close> as the numbers they render; used to decide a lookup
  from the code instead of from its digits.
\<close>

definition shotTypeLabelByCode :: "(int \<times> string) list" where
  "shotTypeLabelByCode =
     [(100, ''3PT Default''), (101, ''3PT Top Key''), (102, ''3PT Wing''),
      (103, ''3PT Corner''), (104, ''3PT Long''), (105, ''3PT Halfcourt''),
      (200, ''2PT Default''), (201, ''2PT Elbow''), (202, ''2PT Wing''),
      (203, ''2PT Baseline''), (204, ''2PT Top Key''),
      (401, ''Dunk''), (402, ''Layup''), (403, ''Post Move''),
      (404, ''Fade Away''), (405, ''Hook''), (406, ''Off Dribble J''),
      (407, ''Putback Dunk''), (408, ''Tip-in''), (409, ''Rebound Shot''),
      (410, ''Dunk''), (411, ''Driving Layup'')]"

text \<open>
  \<^verbatim>\<open>
  function getShotRange(code) {
    const label = shotTypeLabel[String(code)] || String(code);
    if (label.includes("3PT")) return "three";
    if (label.includes("2PT")) return "jump";
    return "paint";
  }
  \<close>
\<close>

definition getShotRange :: "int \<Rightarrow> string" where
  "getShotRange code =
     (let label = (case map_of shotTypeLabel (js_String code) of
                     Some l \<Rightarrow> l
                   | None \<Rightarrow> js_String code)
      in if js_includes label ''3PT'' then ''three''
         else if js_includes label ''2PT'' then ''jump''
         else ''paint'')"

text \<open>
  \<^verbatim>\<open>
  function periodFromClock(gameclock) {
    if (typeof gameclock !== "number") return "?";
    if (gameclock < 0) return "End";
    if (gameclock < 720) return "Q1";
    if (gameclock < 1440) return "Q2";
    if (gameclock < 2160) return "Q3";
    if (gameclock < 2880) return "Q4";
    return "OT";
  }
  \<close>
  Every comparison with \<open>NaN\<close> is false, so \<open>NaN\<close> falls through to the last line,
  as positive infinity does; negative infinity is below 0.
\<close>

fun periodFromClock :: "jsnum option \<Rightarrow> string" where
  "periodFromClock None = ''?''"
| "periodFromClock (Some (Finite g)) =
     (if g < 0 then ''End''
      else if g < 720 then ''Q1''
      else if g < 1440 then ''Q2''
      else if g < 2160 then ''Q3''
      else if g < 2880 then ''Q4''
      else ''OT'')"
| "periodFromClock (Some NaN) = ''OT''"
| "periodFromClock (Some PosInfinity) = ''OT''"
| "periodFromClock (Some NegInfinity) = ''End''"

section \<open>Shot outcomes\<close>

definition madeResults :: "string set" where
  "madeResults = {''1'', ''2'', ''5''}"

definition missedResults :: "string set" where
  "missedResults = {''0'', ''4''}"

definition blockedResults :: "string set" where
  "blockedResults = {''3''}"

text \<open>
  A cell of the offense shot profile: attempts, made, missed, blocked
  (\<^verbatim>\<open>{ a: 0, m: 0, mi: 0, b: 0 }\<close>).
\<close>

record off_cell =
  cell_a :: nat
  cell_m :: nat
  cell_mi :: nat
  cell_b :: nat

definition zeroOffCell :: off_cell where
  "zeroOffCell = \<lparr>cell_a = 0, cell_m = 0, cell_mi = 0, cell_b = 0\<rparr>"

text \<open>
  \<^verbatim>\<open>
  function addOffStat(cell, resultCode) {
    const rc = String(resultCode);
    cell.a += 1;
    if (madeResults.has(rc)) cell.m += 1;
    else if (blockedResults.has(rc)) cell.b += 1;
    else if (missedResults.has(rc)) cell.mi += 1;
    else cell.mi += 1;
  }
  \<close>
  The script updates the cell in place; the model returns the updated cell.
\<close>

definition addOffStat :: "off_cell \<Rightarrow> int \<Rightarrow> off_cell" where
  "addOffStat cell resultCode =
     (let rc = js_String resultCode;
          cell1 = cell\<lparr>cell_a := cell_a cell + 1\<rparr>
      in if rc \<in> madeResults then cell1\<lparr>cell_m := cell_m cell1 + 1\<rparr>
         else if rc \<in> blockedResults then cell1\<lparr>cell_b := cell_b cell1 + 1\<rparr>
         else if rc \<in> missedResults then cell1\<lparr>cell_mi := cell_mi cell1 + 1\<rparr>
         else cell1\<lparr>cell_mi := cell_mi cell1 + 1\<rparr>)"

subsection \<open>The defender panel\<close>

text \<open>
  \<^verbatim>\<open>function getTeamBySide(side) { return side === 0 ? home : away; }\<close>
\<close>

definition getTeamBySide :: "js_team \<Rightarrow> js_team \<Rightarrow> jsnum \<Rightarrow> js_team" where
  "getTeamBySide home away side = (if js_strict_eq side (Finite 0) then home else away)"

text \<open>
  \<^verbatim>\<open>renderDefenderShotPanel\<close> up to its summary cards. The three selections are the
  values of the checked boxes of the three filters (sets of strings). First the shots
  whose defender resolves and is selected:
  \<^verbatim>\<open>
  const defenderShots = shotEvents.filter(ev => {
    const side = Number(ev.defending_team);
    const defTeam = getTeamBySide(side);
    const idx = normalizeSlot(ev.defender, defTeam.players.length);
    if (idx === null) return false;
    if (selectedDefenders.size === 0) return true;
    return selectedDefenders.has(`${side}:${idx}`);
  });
  \<close>
\<close>

definition defenderShots ::
  "js_engine \<Rightarrow> js_team \<Rightarrow> js_team \<Rightarrow> string set \<Rightarrow> shot_event list \<Rightarrow> shot_event list" where
  "defenderShots rt home away selectedDefenders shotEvents =
     filter (\<lambda>ev.
        let side = defending_team ev;
            defTeam = getTeamBySide home away side
        in case normalizeSlot rt (defender ev) (length (team_players defTeam)) of
             None \<Rightarrow> False
           | Some idx \<Rightarrow>
               if selectedDefenders = {} then True
               else js_String_num rt side @ '':'' @ js_String_num rt (Finite idx)
                      \<in> selectedDefenders)
       shotEvents"

text \<open>
  \<^verbatim>\<open>
  const filtered = defenderShots.filter(ev => {
    if (selectedShotTypes.size > 0 && !selectedShotTypes.has(String(ev.shot_type))) return false;
    if (selectedResults.size > 0 && !selectedResults.has(String(ev.shot_result))) return false;
    return true;
  });
  \<close>
\<close>

definition filteredShots ::
  "string set \<Rightarrow> string set \<Rightarrow> shot_event list \<Rightarrow> shot_event list" where
  "filteredShots selectedShotTypes selectedResults shots =
     filter (\<lambda>ev.
        if selectedShotTypes \<noteq> {} \<and> js_String (shot_type ev) \<notin> selectedShotTypes then False
        else if selectedResults \<noteq> {} \<and> js_String (shot_result ev) \<notin> selectedResults then False
        else True)
       shots"

text \<open>
  \<^verbatim>\<open>
  const madeCount = filtered.filter(ev => ["1", "2", "5"].includes(String(ev.shot_result))).length;
  const missedCount = filtered.filter(ev => ["0", "3", "4"].includes(String(ev.shot_result))).length;
  const blockedCount = filtered.filter(ev => String(ev.shot_result) === "3").length;
  const foulCount = filtered.filter(ev => ["4", "5"].includes(String(ev.shot_result))).length;
  \<close>
\<close>

definition madeCount :: "shot_event list \<Rightarrow> nat" where
  "madeCount filtered =
     length (filter (\<lambda>ev. js_String (shot_result ev) \<in> set [''1'', ''2'', ''5'']) filtered)"

definition missedCount :: "shot_event list \<Rightarrow> nat" where
  "missedCount filtered =
     length (filter (\<lambda>ev. js_String (shot_result ev) \<in> set [''0'', ''3'', ''4'']) filtered)"

definition blockedCount :: "shot_event list \<Rightarrow> nat" where
  "blockedCount filtered =
     length (filter (\<lambda>ev. js_String (shot_result ev) = ''3'') filtered)"

definition foulCount :: "shot_event list \<Rightarrow> nat" where
  "foulCount filtered =
     length (filter (\<lambda>ev. js_String (shot_result ev) \<in> set [''4'', ''5'']) filtered)"

text \<open>The cards of the panel: shots defended, made, missed, blocked, with foul.\<close>

record def_summary =
  shots_defended :: nat
  made_against :: nat
  missed_against :: nat
  blocked :: nat
  with_foul :: nat

definition renderDefenderShotPanel ::
  "js_engine \<Rightarrow> js_team \<Rightarrow> js_team \<Rightarrow> string set \<Rightarrow> string set \<Rightarrow> string set
     \<Rightarrow> shot_event list \<Rightarrow> def_summary" where
  "renderDefenderShotPanel rt home away selectedDefenders selectedShotTypes selectedResults
       shotEvents =
     (let filtered = filteredShots selectedShotTypes selectedResults
                       (defenderShots rt home away selectedDefenders shotEvents)
      in \<lparr>shots_defended = length filtered,
          made_against = madeCount filtered,
          missed_against = missedCount filtered,
          blocked = blockedCount filtered,
          with_foul = foulCount filtered\<rparr>)"

section \<open>The offense shot profile\<close>

text \<open>
  \<^verbatim>\<open>
  const typeCodes = [...new Set(shotEvents.map(ev => String(ev.shot_type)).filter(Boolean))]
    .sort((a, b) => Number(a) - Number(b));
  \<close>
  The script keeps each code as the string \<^verbatim>\<open>String(ev.shot_type)\<close> (never empty for a
  number), drops the duplicates and sorts by \<^verbatim>\<open>Number\<close>. The model keeps the number
  itself: \<open>js_String\<close> is injective, so the codes, their order and the keys of the
  objects built from them are the same.
\<close>

definition typeCodes :: "shot_event list \<Rightarrow> int list" where
  "typeCodes shotEvents = sort (remdups (map shot_type shotEvents))"

text \<open>
  \<^verbatim>\<open>Object.fromEntries(typeCodes.map(code => [code, zeroOffCell()]))\<close>: an object
  with one zero cell per code, as a map from the code.
\<close>

definition zeroCounts :: "int list \<Rightarrow> (int \<rightharpoonup> off_cell)" where
  "zeroCounts codes = map_of (map (\<lambda>code. (code, zeroOffCell)) codes)"

text \<open>
  The body of the loop over the shots, for the player at \<open>playerIdx\<close> of the team on
  \<open>side\<close> (0 home, 1 away):
  \<^verbatim>\<open>
  shotEvents.forEach(ev => {
    if (Number(ev.attacking_team) !== side) return;
    const idx = normalizeSlot(ev.attacker, teamObj.players.length);
    if (idx !== playerIdx) return;
    const code = String(ev.shot_type);
    if (!(code in counts)) return;
    addOffStat(counts[code], ev.shot_result);
  });
  \<close>
\<close>

definition countShot ::
  "js_engine \<Rightarrow> nat \<Rightarrow> nat \<Rightarrow> nat \<Rightarrow> (int \<rightharpoonup> off_cell) \<Rightarrow> shot_event
     \<Rightarrow> (int \<rightharpoonup> off_cell)" where
  "countShot rt side playersLen playerIdx counts ev =
     (if \<not> js_strict_eq (attacking_team ev) (Finite (of_nat side)) then counts
      else if normalizeSlot rt (attacker ev) playersLen \<noteq> Some (of_nat playerIdx) then counts
      else (case counts (shot_type ev) of
              None \<Rightarrow> counts
            | Some cell \<Rightarrow> counts(shot_type ev \<mapsto> addOffStat cell (shot_result ev))))"

definition playerCounts ::
  "js_engine \<Rightarrow> nat \<Rightarrow> nat \<Rightarrow> nat \<Rightarrow> shot_event list \<Rightarrow> (int \<rightharpoonup> off_cell)" where
  "playerCounts rt side playersLen playerIdx shotEvents =
     foldl (countShot rt side playersLen playerIdx) (zeroCounts (typeCodes shotEvents))
       shotEvents"

definition addCells :: "off_cell \<Rightarrow> off_cell \<Rightarrow> off_cell" where
  "addCells out cell =
     \<lparr>cell_a = cell_a out + cell_a cell, cell_m = cell_m out + cell_m cell,
      cell_mi = cell_mi out + cell_mi cell, cell_b = cell_b out + cell_b cell\<rparr>"

text \<open>
  \<^verbatim>\<open>
  function sumOffCells(cellsByType, typeCodes) {
    const out = zeroOffCell();
    typeCodes.forEach(code => {
      out.a += cellsByType[code].a;  out.m += cellsByType[code].m;
      out.mi += cellsByType[code].mi;  out.b += cellsByType[code].b;
    });
    return out;
  }
  \<close>
  \<open>sumOffCellAt\<close> is the body of the loop. Reading a code that is no key would throw;
  every caller passes the codes the object was built from (\<open>playerCounts_keys\<close>,
  \<open>teamCounts_keys\<close> below), so that branch of the model is never taken.
\<close>

definition sumOffCellAt :: "(int \<rightharpoonup> off_cell) \<Rightarrow> off_cell \<Rightarrow> int \<Rightarrow> off_cell" where
  "sumOffCellAt cellsByType out code =
     (case cellsByType code of
        None \<Rightarrow> out
      | Some cell \<Rightarrow> addCells out cell)"

definition sumOffCells :: "(int \<rightharpoonup> off_cell) \<Rightarrow> int list \<Rightarrow> off_cell" where
  "sumOffCells cellsByType codes = foldl (sumOffCellAt cellsByType) zeroOffCell codes"

text \<open>
  The team's cells are the sums of its players' cells:
  \<^verbatim>\<open>
  typeCodes.forEach(code => {
    teamCounts[side][code].a += counts[code].a;
    teamCounts[side][code].m += counts[code].m;
    teamCounts[side][code].mi += counts[code].mi;
    teamCounts[side][code].b += counts[code].b;
  });
  \<close>
  once for each player of the team, in roster order, on cells that start at zero.
  \<open>addCountsAt\<close> is the body of this loop for one code, \<open>addCounts\<close> the loop for
  one player's \<open>counts\<close>, \<open>teamCounts\<close> the result after the last player.
\<close>

definition addCountsAt ::
  "(int \<rightharpoonup> off_cell) \<Rightarrow> (int \<rightharpoonup> off_cell) \<Rightarrow> int \<Rightarrow> (int \<rightharpoonup> off_cell)" where
  "addCountsAt counts tc code =
     (case (tc code, counts code) of
        (Some t, Some c) \<Rightarrow> tc(code \<mapsto> addCells t c)
      | _ \<Rightarrow> tc)"

definition addCounts ::
  "int list \<Rightarrow> (int \<rightharpoonup> off_cell) \<Rightarrow> (int \<rightharpoonup> off_cell) \<Rightarrow> (int \<rightharpoonup> off_cell)" where
  "addCounts codes tc counts = foldl (addCountsAt counts) tc codes"

definition teamCounts ::
  "js_engine \<Rightarrow> nat \<Rightarrow> js_team \<Rightarrow> shot_event list \<Rightarrow> (int \<rightharpoonup> off_cell)" where
  "teamCounts rt side teamObj shotEvents =
     foldl (\<lambda>tc playerIdx.
              addCounts (typeCodes shotEvents) tc
                (playerCounts rt side (length (team_players teamObj)) playerIdx shotEvents))
       (zeroCounts (typeCodes shotEvents))
       [0 ..< length (team_players teamObj)]"

text \<open>
  The Total column: of a player's row (\<^verbatim>\<open>sumOffCells(counts, typeCodes)\<close>) and of a
  team's row (\<^verbatim>\<open>homeTotal\<close>, \<^verbatim>\<open>awayTotal\<close>).
\<close>

definition playerTotal ::
  "js_engine \<Rightarrow> nat \<Rightarrow> js_team \<Rightarrow> nat \<Rightarrow> shot_event list \<Rightarrow> off_cell" where
  "playerTotal rt side teamObj playerIdx shotEvents =
     sumOffCells (playerCounts rt side (length (team_players teamObj)) playerIdx shotEvents)
       (typeCodes shotEvents)"

definition teamTotal :: "js_engine \<Rightarrow> nat \<Rightarrow> js_team \<Rightarrow> shot_event list \<Rightarrow> off_cell" where
  "teamTotal rt side teamObj shotEvents =
     sumOffCells (teamCounts rt side teamObj shotEvents) (typeCodes shotEvents)"

section \<open>The range charts\<close>

record range_counts =
  three :: nat
  jump :: nat
  paint :: nat

definition emptyRangeCounts :: range_counts where
  "emptyRangeCounts = \<lparr>three = 0, jump = 0, paint = 0\<rparr>"

definition sumRangeCounts :: "range_counts \<Rightarrow> nat" where
  "sumRangeCounts counts = three counts + jump counts + paint counts"

text \<open>
  \<^verbatim>\<open>counts[key] += 1\<close> on an object with the three keys. Another key would add a
  property that no chart reads; \<open>getShotRange\<close> returns no other key.
\<close>

definition bumpRange :: "range_counts \<Rightarrow> string \<Rightarrow> range_counts" where
  "bumpRange counts key =
     (if key = ''three'' then counts\<lparr>three := three counts + 1\<rparr>
      else if key = ''jump'' then counts\<lparr>jump := jump counts + 1\<rparr>
      else if key = ''paint'' then counts\<lparr>paint := paint counts + 1\<rparr>
      else counts)"

text \<open>
  \<^verbatim>\<open>renderRangeCharts\<close>: the counts of the selected player (side \<open>pside\<close>, roster
  index \<open>pslot\<close>, both \<^verbatim>\<open>Number\<close>s of the select's value) and of the selected team.
  \<^verbatim>\<open>
  shotEvents.forEach(ev => {
    if (Number(ev.attacking_team) !== pside) return;
    const idx = normalizeSlot(ev.attacker, pTeam.players.length);
    if (idx !== pslot) return;
    playerCounts[getShotRange(ev.shot_type)] += 1;
  });
  ...
  shotEvents.forEach(ev => {
    if (Number(ev.attacking_team) !== tside) return;
    teamCounts[getShotRange(ev.shot_type)] += 1;
  });
  \<close>
\<close>

definition countPlayerRange ::
  "js_engine \<Rightarrow> js_team \<Rightarrow> js_team \<Rightarrow> jsnum \<Rightarrow> jsnum \<Rightarrow> range_counts \<Rightarrow> shot_event
     \<Rightarrow> range_counts" where
  "countPlayerRange rt home away pside pslot counts ev =
     (if \<not> js_strict_eq (attacking_team ev) pside then counts
      else (case normalizeSlot rt (attacker ev)
                   (length (team_players (getTeamBySide home away pside))) of
              None \<Rightarrow> counts
            | Some idx \<Rightarrow>
                if \<not> js_strict_eq (Finite idx) pslot then counts
                else bumpRange counts (getShotRange (shot_type ev))))"

definition playerRangeCounts ::
  "js_engine \<Rightarrow> js_team \<Rightarrow> js_team \<Rightarrow> jsnum \<Rightarrow> jsnum \<Rightarrow> shot_event list \<Rightarrow> range_counts" where
  "playerRangeCounts rt home away pside pslot shotEvents =
     foldl (countPlayerRange rt home away pside pslot) emptyRangeCounts shotEvents"

definition countTeamRange :: "jsnum \<Rightarrow> range_counts \<Rightarrow> shot_event \<Rightarrow> range_counts" where
  "countTeamRange tside counts ev =
     (if \<not> js_strict_eq (attacking_team ev) tside then counts
      else bumpRange counts (getShotRange (shot_type ev)))"

definition teamRangeCounts :: "jsnum \<Rightarrow> shot_event list \<Rightarrow> range_counts" where
  "teamRangeCounts tside shotEvents = foldl (countTeamRange tside) emptyRangeCounts shotEvents"

section \<open>Offense by range\<close>

text \<open>An entry of the strengths view: a player's attempts and makes in one range.\<close>

record fg_entry =
  entry_name :: string
  entry_a :: nat
  entry_m :: nat

text \<open>
  What the script can throw here: reading a property of \<^verbatim>\<open>undefined\<close>.
\<close>

datatype js_error = TypeError

text \<open>
  \<^verbatim>\<open>xs.forEach(f)\<close> for a body that can throw: the first throw ends the loop and
  leaves the function that runs it.
\<close>

fun forEach :: "('s \<Rightarrow> 'a \<Rightarrow> js_error + 's) \<Rightarrow> 's \<Rightarrow> 'a list \<Rightarrow> js_error + 's" where
  "forEach body s [] = Inr s"
| "forEach body s (x # xs) =
     (case body s x of
        Inl e \<Rightarrow> Inl e
      | Inr s' \<Rightarrow> forEach body s' xs)"

text \<open>
  \<^verbatim>\<open>
  function buildOffenseByRange(teamSide) {
    const teamObj = getTeamBySide(teamSide);
    const out = {};
    ["three", "jump", "paint"].forEach(range => {
      out[range] = teamObj.players.map(player => ({ name: player.name, a: 0, m: 0 }));
    });
    shotEvents.forEach(ev => {
      if (Number(ev.attacking_team) !== teamSide) return;
      const idx = normalizeSlot(ev.attacker, teamObj.players.length);
      if (idx === null) return;
      const range = getShotRange(ev.shot_type);
      if (!(range in out)) return;
      out[range][idx].a += 1;
      if (madeResults.has(String(ev.shot_result))) out[range][idx].m += 1;
    });
    return out;
  }
  \<close>
  \<open>out\<close> is a map from the range to the row of entries, one per player.
  \<^verbatim>\<open>out[range][idx]\<close> is an entry only when \<open>idx\<close> is a position of the row;
  otherwise it is \<^verbatim>\<open>undefined\<close> and reading its \<^verbatim>\<open>a\<close> throws a
  \<^verbatim>\<open>TypeError\<close>.
\<close>

definition emptyByRange :: "js_team \<Rightarrow> (string \<rightharpoonup> fg_entry list)" where
  "emptyByRange teamObj =
     map_of (map (\<lambda>range. (range, map (\<lambda>player. \<lparr>entry_name = name player, entry_a = 0,
                                                    entry_m = 0\<rparr>)
                                     (team_players teamObj)))
               [''three'', ''jump'', ''paint''])"

definition countByRange ::
  "js_engine \<Rightarrow> jsnum \<Rightarrow> nat \<Rightarrow> (string \<rightharpoonup> fg_entry list) \<Rightarrow> shot_event
     \<Rightarrow> js_error + (string \<rightharpoonup> fg_entry list)" where
  "countByRange rt teamSide playersLen out ev =
     (if \<not> js_strict_eq (attacking_team ev) teamSide then Inr out
      else (case normalizeSlot rt (attacker ev) playersLen of
              None \<Rightarrow> Inr out
            | Some idx \<Rightarrow>
                (case out (getShotRange (shot_type ev)) of
                   None \<Rightarrow> Inr out
                 | Some row \<Rightarrow>
                     (case array_position (length row) idx of
                        None \<Rightarrow> Inl TypeError
                      | Some i \<Rightarrow>
                          let e = row ! i;
                              e1 = e\<lparr>entry_a := entry_a e + 1\<rparr>;
                              e2 = (if js_String (shot_result ev) \<in> madeResults
                                    then e1\<lparr>entry_m := entry_m e1 + 1\<rparr> else e1)
                          in Inr (out(getShotRange (shot_type ev) \<mapsto> row[i := e2]))))))"

definition buildOffenseByRange ::
  "js_engine \<Rightarrow> js_team \<Rightarrow> js_team \<Rightarrow> jsnum \<Rightarrow> shot_event list
     \<Rightarrow> js_error + (string \<rightharpoonup> fg_entry list)" where
  "buildOffenseByRange rt home away teamSide shotEvents =
     (let teamObj = getTeamBySide home away teamSide
      in forEach (countByRange rt teamSide (length (team_players teamObj)))
           (emptyByRange teamObj) shotEvents)"

section \<open>Serialization of a finished game\<close>

text \<open>
  What \<^verbatim>\<open>serialize_game\<close> builds out of dictionaries and lists. A dictionary
  keeps its keys in insertion order, so it is an association list; assigning to a key
  that is present replaces its value in place (\<open>AList.update\<close>).
\<close>

datatype json =
    JNull
  | JBool bool
  | JInt int
  | JStr string
  | JList "json list"
  | JDict "(string \<times> json) list"

text \<open>
  The classes \<^verbatim>\<open>Game\<close>, team, player and stat live in \<^verbatim>\<open>game.py\<close>, which
  \<^verbatim>\<open>web_tool.py\<close> imports. \<^verbatim>\<open>serialize_game\<close> reads these attributes of them:
  \<^verbatim>\<open>game.teams\<close>, \<^verbatim>\<open>game.baseevents\<close>; a team's \<^verbatim>\<open>id\<close>, \<^verbatim>\<open>name\<close>,
  \<^verbatim>\<open>players\<close>, \<^verbatim>\<open>stats\<close>; a player's \<^verbatim>\<open>id\<close>, \<^verbatim>\<open>name\<close>, \<^verbatim>\<open>starter\<close>,
  \<^verbatim>\<open>stats\<close>; and of a \<^verbatim>\<open>stats\<close> object the list \<^verbatim>\<open>qtr\<close> and the object
  \<^verbatim>\<open>full\<close>. The stat object itself (\<open>'st\<close>) and the event (\<open>'ev\<close>) stay abstract:
  the three methods called on them, \<^verbatim>\<open>player_stats()\<close>, \<^verbatim>\<open>team_stats()\<close> and
  \<^verbatim>\<open>to_json()\<close>, are parameters of the model. Whatever else a game holds is the
  record's extension.
\<close>

record 'st statsheet =
  qtr :: "'st list"
  full :: 'st

record 'st player =
  player_id :: json
  player_name :: string
  starter :: bool
  player_sheet :: "'st statsheet"

record 'st team =
  team_id :: json
  team_label :: string
  players :: "'st player list"
  team_sheet :: "'st statsheet"

record ('st, 'ev) game =
  teams :: "'st team list"
  baseevents :: "'ev list"

datatype py_error = IndexError

text \<open>
  \<^verbatim>\<open>
  for qtr, stat in enumerate(player.stats.qtr, start=1):
      stats[f"q{qtr}"] = stat.player_stats()
  \<close>
  The counter \<open>qtr\<close> starts at 1; \<^verbatim>\<open>f"q{qtr}"\<close> is the letter q and the counter in
  decimal.
\<close>

fun stats_by_quarter ::
  "('st \<Rightarrow> json) \<Rightarrow> nat \<Rightarrow> 'st list \<Rightarrow> (string \<times> json) list \<Rightarrow> (string \<times> json) list" where
  "stats_by_quarter to_stats qtr_no [] stats = stats"
| "stats_by_quarter to_stats qtr_no (stat # rest) stats =
     stats_by_quarter to_stats (Suc qtr_no) rest
       (AList.update (''q'' @ str_nat qtr_no) (to_stats stat) stats)"

text \<open>
  The \<^verbatim>\<open>stats\<close> dictionary of a player or a team: the quarters, then
  \<^verbatim>\<open>stats["total"] = player.stats.full.player_stats()\<close>.
\<close>

definition serialize_stats :: "('st \<Rightarrow> json) \<Rightarrow> 'st statsheet \<Rightarrow> (string \<times> json) list" where
  "serialize_stats to_stats sheet =
     AList.update ''total'' (to_stats (full sheet)) (stats_by_quarter to_stats 1 (qtr sheet) [])"

definition serialize_player :: "('st \<Rightarrow> json) \<Rightarrow> 'st player \<Rightarrow> json" where
  "serialize_player player_stats p =
     JDict [(''id'', player_id p), (''name'', JStr (player_name p)),
            (''starter'', JBool (starter p)),
            (''stats'', JDict (serialize_stats player_stats (player_sheet p)))]"

definition serialize_team :: "('st \<Rightarrow> json) \<Rightarrow> ('st \<Rightarrow> json) \<Rightarrow> 'st team \<Rightarrow> json" where
  "serialize_team player_stats team_stats t =
     JDict [(''id'', team_id t), (''name'', JStr (team_label t)),
            (''players'', JList (map (serialize_player player_stats) (players t))),
            (''stats'', JDict (serialize_stats team_stats (team_sheet t)))]"

text \<open>
  \<^verbatim>\<open>
  def serialize_game(game):
      teams = []
      for team in game.teams:
          ...
          teams.append({"id": team.id, "name": team.name, "players": players, "stats": team_stats})
      events = [event.to_json() for event in game.baseevents]
      return {"teamHome": teams[0], "teamAway": teams[1], "events": events}
  \<close>
  \<^verbatim>\<open>teams[0]\<close> and \<^verbatim>\<open>teams[1]\<close> raise \<^verbatim>\<open>IndexError\<close> on a game with fewer
  than two teams.
\<close>

definition serialize_game ::
  "('st \<Rightarrow> json) \<Rightarrow> ('st \<Rightarrow> json) \<Rightarrow> ('ev \<Rightarrow> json) \<Rightarrow> ('st, 'ev, 'z) game_scheme
     \<Rightarrow> py_error + json" where
  "serialize_game player_stats team_stats to_json g =
     (let ts = map (serialize_team player_stats team_stats) (teams g);
          events = map to_json (baseevents g)
      in if length ts < 2 then Inl IndexError
         else Inr (JDict [(''teamHome'', ts ! 0), (''teamAway'', ts ! 1),
                          (''events'', JList events)]))"

subsection \<open>The shape of the output\<close>

text \<open>
  The output written out key by key, to compare \<open>serialize_game\<close> with. A stats object
  has one key per element of \<^verbatim>\<open>stats.qtr\<close>, \<open>q1\<close>, \<open>q2\<close>, ... in the order of the
  list, and then \<open>total\<close>; a player has id, name, starter and stats; a team has id,
  name, the players in roster order and stats.
\<close>

definition stats_object :: "('st \<Rightarrow> json) \<Rightarrow> 'st statsheet \<Rightarrow> json" where
  "stats_object to_stats sheet =
     JDict (map (\<lambda>(n, stat). (''q'' @ str_nat n, to_stats stat)) (enumerate 1 (qtr sheet))
            @ [(''total'', to_stats (full sheet))])"

definition player_object :: "('st \<Rightarrow> json) \<Rightarrow> 'st player \<Rightarrow> json" where
  "player_object player_stats p =
     JDict [(''id'', player_id p), (''name'', JStr (player_name p)),
            (''starter'', JBool (starter p)),
            (''stats'', stats_object player_stats (player_sheet p))]"

definition team_object :: "('st \<Rightarrow> json) \<Rightarrow> ('st \<Rightarrow> json) \<Rightarrow> 'st team \<Rightarrow> json" where
  "team_object player_stats team_stats t =
     JDict [(''id'', team_id t), (''name'', JStr (team_label t)),
            (''players'', JList (map (player_object player_stats) (players t))),
            (''stats'', stats_object team_stats (team_sheet t))]"

section \<open>The report handler\<close>

text \<open>
  A Python string is a sequence of Unicode code points. \<open>py\<close> is the string of an
  ASCII literal of the source.
\<close>

type_synonym pystr = "nat list"

definition py :: "string \<Rightarrow> pystr" where
  "py s = map of_char s"

text \<open>
  \<^verbatim>\<open>str.strip()\<close> removes the white space of \<^verbatim>\<open>str.isspace()\<close> from both ends:
  the code points 9 to 13, 28 to 32, 133, 160, 5760, 8192 to 8202, 8232, 8233, 8239, 8287
  and 12288.
\<close>

definition py_isspace :: "nat \<Rightarrow> bool" where
  "py_isspace c =
     ((9 \<le> c \<and> c \<le> 13) \<or> (28 \<le> c \<and> c \<le> 32) \<or> c = 133 \<or> c = 160 \<or> c = 5760
      \<or> (8192 \<le> c \<and> c \<le> 8202) \<or> c = 8232 \<or> c = 8233 \<or> c = 8239 \<or> c = 8287
      \<or> c = 12288)"

definition strip :: "pystr \<Rightarrow> pystr" where
  "strip s = rev (dropWhile py_isspace (rev (dropWhile py_isspace s)))"

text \<open>
  \<^verbatim>\<open>str.isdigit()\<close>: the string is not empty and every character has the Unicode
  property of a digit. Below 256 these are the ASCII digits 48 to 57 and the superscript
  digits 178, 179 and 185 (two, three, one). From 256 on the property is the one of the
  Unicode database, taken as it is (\<open>digit_beyond\<close>).
\<close>

definition py_isdigit_char :: "(nat \<Rightarrow> bool) \<Rightarrow> nat \<Rightarrow> bool" where
  "py_isdigit_char digit_beyond c =
     (if c < 256 then (48 \<le> c \<and> c \<le> 57) \<or> c = 178 \<or> c = 179 \<or> c = 185
      else digit_beyond c)"

definition isdigit :: "(nat \<Rightarrow> bool) \<Rightarrow> pystr \<Rightarrow> bool" where
  "isdigit digit_beyond s = (s \<noteq> [] \<and> list_all (py_isdigit_char digit_beyond) s)"

text \<open>\<^verbatim>\<open>request.form.get(key, "")\<close>; the keys are literals of the source.\<close>

definition form_get :: "(string \<rightharpoonup> pystr) \<Rightarrow> string \<Rightarrow> pystr" where
  "form_get form key = (case form key of None \<Rightarrow> [] | Some v \<Rightarrow> v)"

text \<open>
  A rendered page is the template and the values it is rendered with:
  \<^verbatim>\<open>FORM_HTML\<close> with \<^verbatim>\<open>error\<close>, \<^verbatim>\<open>username\<close>, \<^verbatim>\<open>password\<close>, \<^verbatim>\<open>matchid\<close>;
  \<^verbatim>\<open>REPORT_HTML\<close> with \<^verbatim>\<open>report_json\<close>, \<^verbatim>\<open>matchid\<close>, \<^verbatim>\<open>username\<close>. The handler
  returns a page with a status, or a page alone.
\<close>

record form_values =
  form_error :: pystr
  form_username :: pystr
  form_password :: pystr
  form_matchid :: pystr

datatype 'r page = FORM_HTML form_values | REPORT_HTML 'r pystr pystr

datatype 'r reply = WithStatus "'r page" nat | Page "'r page"

text \<open>
  What a call can raise: an exception whose class is \<^verbatim>\<open>Exception\<close> or below it, with
  its text \<^verbatim>\<open>str(exc)\<close>; or one that is outside \<^verbatim>\<open>Exception\<close>
  (\<^verbatim>\<open>SystemExit\<close>, \<^verbatim>\<open>KeyboardInterrupt\<close>, \<^verbatim>\<open>GeneratorExit\<close>, or another
  class directly under \<^verbatim>\<open>BaseException\<close>), which \<^verbatim>\<open>except Exception\<close> does not
  catch.
\<close>

datatype py_raise = Exception pystr | OutsideException pystr

text \<open>
  \<^verbatim>\<open>generate_report(matchid, username, password)\<close> logs in to BBAPI, fetches and
  parses the match and replays it in a \<^verbatim>\<open>Game\<close>, with code that is outside
  \<^verbatim>\<open>web_tool.py\<close>. It is a parameter of the model: \<open>Inl\<close> of what it raises,
  \<open>Inr\<close> of the report otherwise. The handler's result is \<open>Inr\<close> of its reply, or
  \<open>Inl\<close> of what it lets through to Flask; with it come the calls of
  \<^verbatim>\<open>generate_report\<close> it made, in order.
  \<^verbatim>\<open>
  def report():
      username = request.form.get("username", "").strip()
      password = request.form.get("password", "").strip()
      matchid = request.form.get("matchid", "").strip()
      if not username or not password or not matchid:
          return (render_template_string(FORM_HTML, error="All fields are required.",
                    username=username, password=password, matchid=matchid), 400)
      if not matchid.isdigit():
          return (render_template_string(FORM_HTML, error="Match ID must be numeric.",
                    username=username, password=password, matchid=matchid), 400)
      try:
          report_json = generate_report(matchid, username, password)
      except Exception as exc:
          return (render_template_string(FORM_HTML, error=f"Failed to generate report: {exc}",
                    username=username, password="", matchid=matchid), 500)
      return render_template_string(
          REPORT_HTML, report_json=report_json, matchid=matchid, username=username)
  \<close>
\<close>

definition report ::
  "(nat \<Rightarrow> bool) \<Rightarrow> (pystr \<Rightarrow> pystr \<Rightarrow> pystr \<Rightarrow> py_raise + 'r) \<Rightarrow> (string \<rightharpoonup> pystr)
     \<Rightarrow> (py_raise + 'r reply) \<times> (pystr \<times> pystr \<times> pystr) list" where
  "report digit_beyond generate_report form =
     (let username = strip (form_get form ''username'');
          password = strip (form_get form ''password'');
          matchid = strip (form_get form ''matchid'')
      in if username = [] \<or> password = [] \<or> matchid = [] then
           (Inr (WithStatus (FORM_HTML \<lparr>form_error = py ''All fields are required.'',
                                        form_username = username, form_password = password,
                                        form_matchid = matchid\<rparr>) 400), [])
         else if \<not> isdigit digit_beyond matchid then
           (Inr (WithStatus (FORM_HTML \<lparr>form_error = py ''Match ID must be numeric.'',
                                        form_username = username, form_password = password,
                                        form_matchid = matchid\<rparr>) 400), [])
         else
           (case generate_report matchid username password of
              Inl (Exception exc) \<Rightarrow>
                (Inr (WithStatus
                        (FORM_HTML \<lparr>form_error = py ''Failed to generate report: '' @ exc,
                                    form_username = username, form_password = [],
                                    form_matchid = matchid\<rparr>) 500),
                 [(matchid, username, password)])
            | Inl (OutsideException exc) \<Rightarrow>
                (Inl (OutsideException exc), [(matchid, username, password)])
            | Inr report_json \<Rightarrow>
                (Inr (Page (REPORT_HTML report_json matchid username)),
                 [(matchid, username, password)])))"

section \<open>Notions used in the proofs about the shot tables\<close>

text \<open>
  The shot is credited to the player at \<open>playerIdx\<close> of the team on \<open>side\<close>: the two
  tests \<open>countShot\<close> makes before it counts.
\<close>

definition credited :: "js_engine \<Rightarrow> nat \<Rightarrow> nat \<Rightarrow> nat \<Rightarrow> shot_event \<Rightarrow> bool" where
  "credited rt side playersLen playerIdx ev =
     (js_strict_eq (attacking_team ev) (Finite (of_nat side))
      \<and> normalizeSlot rt (attacker ev) playersLen = Some (of_nat playerIdx))"

text \<open>The shot is by the team on \<open>side\<close> and credited to one of its players.\<close>

definition credited_to_some :: "js_engine \<Rightarrow> nat \<Rightarrow> nat \<Rightarrow> shot_event \<Rightarrow> bool" where
  "credited_to_some rt side playersLen ev =
     list_ex (\<lambda>p. credited rt side playersLen p ev) [0 ..< playersLen]"

text \<open>The attempts in the cell of a code; 0 when the code is no key.\<close>

definition attempts_at :: "(int \<rightharpoonup> off_cell) \<Rightarrow> int \<Rightarrow> nat" where
  "attempts_at counts code = (case counts code of None \<Rightarrow> 0 | Some cell \<Rightarrow> cell_a cell)"

section \<open>Example data\<close>

text \<open>
  Two rosters of two players, and three shots of the home team on the away team's slot
  1: a blocked three-pointer whose attacker slot, 9, is outside the roster; a made shot
  by slot 1; and a shot whose attacker slot is the number 1.5.
\<close>

text \<open>
  An engine for the examples. Their shots carry numbers, and whole ones wherever a number
  is rendered, so neither of its two conversions is ever used.
\<close>

definition example_engine :: js_engine where
  "example_engine = \<lparr>StringToNumber = (\<lambda>s. NaN), FractionToString = (\<lambda>r. ''0.5'')\<rparr>"

definition example_home :: js_team where
  "example_home =
     \<lparr>team_name = ''Home'', team_players = [\<lparr>name = ''Ann''\<rparr>, \<lparr>name = ''Bea''\<rparr>]\<rparr>"

definition example_away :: js_team where
  "example_away =
     \<lparr>team_name = ''Away'', team_players = [\<lparr>name = ''Cyd''\<rparr>, \<lparr>name = ''Dee''\<rparr>]\<rparr>"

definition shot_unresolved_blocked :: shot_event where
  "shot_unresolved_blocked =
     \<lparr>attacking_team = Finite 0, defending_team = Finite 1, attacker = JSNumber (Finite 9),
      defender = JSNumber (Finite 1), shot_type = 100, shot_result = 3,
      gameclock = Some (Finite 10)\<rparr>"

definition shot_made :: shot_event where
  "shot_made =
     \<lparr>attacking_team = Finite 0, defending_team = Finite 1, attacker = JSNumber (Finite 1),
      defender = JSNumber (Finite 1), shot_type = 100, shot_result = 1,
      gameclock = Some (Finite 10)\<rparr>"

definition shot_fraction_slot :: shot_event where
  "shot_fraction_slot =
     \<lparr>attacking_team = Finite 0, defending_team = Finite 1,
      attacker = JSNumber (Finite (3 / 2)), defender = JSNumber (Finite 1), shot_type = 100,
      shot_result = 1, gameclock = Some (Finite 10)\<rparr>"

text \<open>
  Finished games; a stat object is a number here, and \<^verbatim>\<open>player_stats()\<close> and
  \<^verbatim>\<open>team_stats()\<close> return it. First two teams with one player each and four quarter
  accumulators everywhere. Then a game that went to overtime in the way the code allows:
  the home team holds five accumulators, and a third team is in the list.
\<close>

definition example_teams :: "int team list" where
  "example_teams =
     [\<lparr>team_id = JInt 1, team_label = ''Home'',
       players = [\<lparr>player_id = JInt 11, player_name = ''Ann'', starter = True,
                   player_sheet = \<lparr>qtr = [2, 0, 3, 1], full = 6\<rparr>\<rparr>],
       team_sheet = \<lparr>qtr = [2, 0, 3, 1], full = 6\<rparr>\<rparr>,
      \<lparr>team_id = JInt 2, team_label = ''Away'',
       players = [\<lparr>player_id = JInt 21, player_name = ''Cyd'', starter = False,
                   player_sheet = \<lparr>qtr = [0, 4, 0, 0], full = 4\<rparr>\<rparr>],
       team_sheet = \<lparr>qtr = [0, 4, 0, 0], full = 4\<rparr>\<rparr>]"

definition five_window_teams :: "int team list" where
  "five_window_teams =
     [\<lparr>team_id = JInt 1, team_label = ''Home'', players = [],
       team_sheet = \<lparr>qtr = [2, 0, 3, 1, 5], full = 11\<rparr>\<rparr>,
      \<lparr>team_id = JInt 2, team_label = ''Away'', players = [],
       team_sheet = \<lparr>qtr = [0, 4, 0, 0], full = 4\<rparr>\<rparr>,
      \<lparr>team_id = JInt 3, team_label = ''Third'', players = [],
       team_sheet = \<lparr>qtr = [1, 1, 1, 1], full = 4\<rparr>\<rparr>]"

text \<open>
  Submitted forms: a match id that is the superscript two (code point 178), and a
  well-formed form whose username has a space on either side.
\<close>

definition form_superscript_matchid :: "string \<rightharpoonup> pystr" where
  "form_superscript_matchid =
     [''username'' \<mapsto> py ''bob'', ''password'' \<mapsto> py ''s3cret'', ''matchid'' \<mapsto> [178]]"

definition form_padded_username :: "string \<rightharpoonup> pystr" where
  "form_padded_username =
     [''username'' \<mapsto> py '' bob '', ''password'' \<mapsto> py ''s3cret'',
      ''matchid'' \<mapsto> py ''138595249'']"

section \<open>Properties of the decimal rendering\<close>

lemma digit_val_digit_char: "d < 10 \<Longrightarrow> digit_val (digit_char d) = d"
proof -
  assume "d < 10"
  then have "d \<in> {0, 1, 2, 3, 4, 5, 6, 7, 8, 9}" by auto
  then show ?thesis by (auto simp: digit_val_def digit_char_def)
qed

lemma nat_of_str_str_nat: "nat_of_str (str_nat n) = n"
proof (induction n rule: str_nat.induct)
  case (1 n)
  show ?case
  proof (cases "n < 10")
    case True
    then show ?thesis
      by (simp add: str_nat.simps [of n] nat_of_str_def digit_val_digit_char)
  next
    case False
    with 1 have "nat_of_str (str_nat (n div 10)) = n div 10" by simp
    with False show ?thesis
      by (simp add: str_nat.simps [of n] nat_of_str_def digit_val_digit_char)
  qed
qed

lemma str_nat_inj: "str_nat a = str_nat b \<longleftrightarrow> a = b"
  by (metis nat_of_str_str_nat)

lemma digit_char_cases:
  "d < 10 \<Longrightarrow> digit_char d \<in> set ''0123456789''"
proof -
  assume "d < 10"
  then have "d \<in> {0, 1, 2, 3, 4, 5, 6, 7, 8, 9}" by auto
  then show ?thesis by (auto simp: digit_char_def)
qed

lemma str_nat_digits: "c \<in> set (str_nat n) \<Longrightarrow> c \<in> set ''0123456789''"
proof (induction n rule: str_nat.induct)
  case (1 n)
  show ?case
  proof (cases "n < 10")
    case True
    with 1(2) have "c = digit_char n" by (simp add: str_nat.simps [of n])
    with True show ?thesis using digit_char_cases by blast
  next
    case False
    with 1(2) have "c \<in> set (str_nat (n div 10)) \<or> c = digit_char (n mod 10)"
      by (auto simp: str_nat.simps [of n])
    then show ?thesis
    proof
      assume "c \<in> set (str_nat (n div 10))"
      with 1(1) False show ?thesis by simp
    next
      assume "c = digit_char (n mod 10)"
      then show ?thesis using digit_char_cases [of "n mod 10"] by simp
    qed
  qed
qed

lemma str_nat_nonempty: "str_nat n \<noteq> []"
  by (simp add: str_nat.simps [of n])

lemma str_nat_hd_not_minus: "hd (str_nat n) \<noteq> CHR ''-''"
proof -
  have "hd (str_nat n) \<in> set (str_nat n)" using str_nat_nonempty by simp
  then have "hd (str_nat n) \<in> set ''0123456789''" by (rule str_nat_digits)
  then show ?thesis by auto
qed

lemma js_String_inj: "js_String a = js_String b \<longleftrightarrow> a = b"
proof
  assume eq: "js_String a = js_String b"
  show "a = b"
  proof (cases "a < 0")
    case an: True
    show ?thesis
    proof (cases "b < 0")
      case True
      with an eq have "str_nat (nat (- a)) = str_nat (nat (- b))"
        by (simp add: js_String_def)
      then have "nat (- a) = nat (- b)" by (simp add: str_nat_inj)
      with an True show ?thesis by simp
    next
      case False
      with an eq have "CHR ''-'' # str_nat (nat (- a)) = str_nat (nat b)"
        by (simp add: js_String_def)
      then have "hd (str_nat (nat b)) = CHR ''-''" by (metis list.sel(1))
      then show ?thesis using str_nat_hd_not_minus by blast
    qed
  next
    case ap: False
    show ?thesis
    proof (cases "b < 0")
      case True
      with ap eq have "str_nat (nat a) = CHR ''-'' # str_nat (nat (- b))"
        by (simp add: js_String_def)
      then have "hd (str_nat (nat a)) = CHR ''-''" by (metis list.sel(1))
      then show ?thesis using str_nat_hd_not_minus by blast
    next
      case False
      with ap eq have "str_nat (nat a) = str_nat (nat b)" by (simp add: js_String_def)
      then have "nat a = nat b" by (simp add: str_nat_inj)
      with ap False show ?thesis by simp
    qed
  qed
qed simp

lemma js_String_chars: "c \<in> set (js_String i) \<Longrightarrow> c \<in> set ''-0123456789''"
proof (cases "i < 0")
  case True
  assume "c \<in> set (js_String i)"
  with True have "c = CHR ''-'' \<or> c \<in> set (str_nat (nat (- i)))"
    by (simp add: js_String_def)
  then show ?thesis using str_nat_digits [of c "nat (- i)"] by auto
next
  case False
  assume "c \<in> set (js_String i)"
  with False have "c \<in> set (str_nat (nat i))" by (simp add: js_String_def)
  then show ?thesis using str_nat_digits [of c "nat i"] by auto
qed

lemma js_String_digit:
  "js_String 0 = ''0''" "js_String 1 = ''1''" "js_String 2 = ''2''"
  "js_String 3 = ''3''" "js_String 4 = ''4''" "js_String 5 = ''5''"
  by (simp_all add: js_String_def str_nat.simps digit_char_def)

lemma js_String_eq_digit:
  "js_String c = ''0'' \<longleftrightarrow> c = 0" "js_String c = ''1'' \<longleftrightarrow> c = 1"
  "js_String c = ''2'' \<longleftrightarrow> c = 2" "js_String c = ''3'' \<longleftrightarrow> c = 3"
  "js_String c = ''4'' \<longleftrightarrow> c = 4" "js_String c = ''5'' \<longleftrightarrow> c = 5"
  using js_String_inj [of c 0] js_String_inj [of c 1] js_String_inj [of c 2]
    js_String_inj [of c 3] js_String_inj [of c 4] js_String_inj [of c 5]
  by (simp_all add: js_String_digit)

lemma quarter_keys:
  "''q'' @ str_nat 1 = ''q1''" "''q'' @ str_nat 2 = ''q2''"
  "''q'' @ str_nat 3 = ''q3''" "''q'' @ str_nat 4 = ''q4''"
  by (simp_all add: str_nat.simps digit_char_def)

section \<open>Periods\<close>

text \<open>
  C4, as the script has it. For every finite gameclock \<open>g\<close> the period is Q1 iff
  \<open>0 \<le> g < 720\<close>, Q2 iff \<open>720 \<le> g < 1440\<close>, Q3 iff \<open>1440 \<le> g < 2160\<close>, Q4 iff
  \<open>2160 \<le> g < 2880\<close>, and the one label OT iff \<open>g \<ge> 2880\<close>: the script does not tell
  one overtime period from the next. A negative clock gets the label End.
\<close>

theorem periodFromClock_periods:
  "(periodFromClock (Some (Finite g)) = ''Q1'' \<longleftrightarrow> 0 \<le> g \<and> g < 720)
   \<and> (periodFromClock (Some (Finite g)) = ''Q2'' \<longleftrightarrow> 720 \<le> g \<and> g < 1440)
   \<and> (periodFromClock (Some (Finite g)) = ''Q3'' \<longleftrightarrow> 1440 \<le> g \<and> g < 2160)
   \<and> (periodFromClock (Some (Finite g)) = ''Q4'' \<longleftrightarrow> 2160 \<le> g \<and> g < 2880)
   \<and> (periodFromClock (Some (Finite g)) = ''OT'' \<longleftrightarrow> 2880 \<le> g)
   \<and> (periodFromClock (Some (Finite g)) = ''End'' \<longleftrightarrow> g < 0)"
  by simp

text \<open>
  C4 as stated fails beyond 2880: there are no successive overtime periods. The first
  second of overtime, the clocks 300 and 720 seconds later, and a clock far beyond all
  get the same period.
\<close>

theorem overtime_is_one_period:
  "periodFromClock (Some (Finite 2880)) = ''OT''
   \<and> periodFromClock (Some (Finite 3180)) = ''OT''
   \<and> periodFromClock (Some (Finite 3600)) = ''OT''
   \<and> periodFromClock (Some (Finite 100000)) = ''OT''"
  by simp

section \<open>Shot ranges\<close>

lemma label_keys: "shotTypeLabel = map (\<lambda>(k, l). (js_String k, l)) shotTypeLabelByCode"
  by (simp add: shotTypeLabel_def shotTypeLabelByCode_def js_String_def str_nat.simps
      digit_char_def)

lemma map_of_rendered:
  "map_of (map (\<lambda>(k, l). (js_String k, l)) t) (js_String c) = map_of t c"
  by (induction t) (auto simp: js_String_inj)

lemma label_lookup: "map_of shotTypeLabel (js_String c) = map_of shotTypeLabelByCode c"
  by (simp add: label_keys map_of_rendered)

lemma js_includes_set: "js_includes s sub \<Longrightarrow> set sub \<subseteq> set s"
proof (induction s)
  case Nil
  then show ?case by simp
next
  case (Cons c cs)
  from Cons.prems have "take (length sub) (c # cs) = sub \<or> js_includes cs sub" by simp
  then show ?case
  proof
    assume "take (length sub) (c # cs) = sub"
    then have "set sub = set (take (length sub) (c # cs))" by simp
    then show ?thesis using set_take_subset by fast
  next
    assume "js_includes cs sub"
    with Cons.IH show ?thesis by auto
  qed
qed

lemma digits_no_PT: "\<not> js_includes (js_String c) [d, CHR ''P'', CHR ''T'']"
proof
  assume "js_includes (js_String c) [d, CHR ''P'', CHR ''T'']"
  then have "CHR ''P'' \<in> set (js_String c)" using js_includes_set by fastforce
  then have "CHR ''P'' \<in> set ''-0123456789''" by (rule js_String_chars)
  then show False by simp
qed

lemma range_three: "c \<in> {100, 101, 102, 103, 104, 105} \<Longrightarrow> getShotRange c = ''three''"
  by (auto simp: getShotRange_def label_lookup shotTypeLabelByCode_def)

lemma range_jump: "c \<in> {200, 201, 202, 203, 204} \<Longrightarrow> getShotRange c = ''jump''"
  by (auto simp: getShotRange_def label_lookup shotTypeLabelByCode_def)

lemma range_paint:
  "c \<notin> {100, 101, 102, 103, 104, 105} \<Longrightarrow> c \<notin> {200, 201, 202, 203, 204} \<Longrightarrow>
   getShotRange c = ''paint''"
  by (auto simp: getShotRange_def label_lookup shotTypeLabelByCode_def digits_no_PT)

lemma getShotRange_keys: "getShotRange c \<in> {''three'', ''jump'', ''paint''}"
  by (simp add: getShotRange_def Let_def)

text \<open>
  C8. \<open>getShotRange\<close> is a function of the shot type code alone and gives every code
  exactly one of the three ranges: three for the three-point codes 100 to 105, jump for
  the two-point codes 200 to 204, paint for the codes 401 to 411, and paint as well for
  every other code.
\<close>

theorem getShotRange_total:
  "(100 \<le> c1 \<and> c1 \<le> 105 \<longrightarrow> getShotRange c1 = ''three'')
   \<and> (200 \<le> c2 \<and> c2 \<le> 204 \<longrightarrow> getShotRange c2 = ''jump'')
   \<and> (401 \<le> c3 \<and> c3 \<le> 411 \<longrightarrow> getShotRange c3 = ''paint'')
   \<and> (\<not> (100 \<le> c4 \<and> c4 \<le> 105) \<and> \<not> (200 \<le> c4 \<and> c4 \<le> 204) \<longrightarrow> getShotRange c4 = ''paint'')
   \<and> getShotRange c5 \<in> {''three'', ''jump'', ''paint''}"
proof -
  have three: "100 \<le> c1 \<and> c1 \<le> 105 \<longrightarrow> getShotRange c1 = ''three''"
  proof
    assume "100 \<le> c1 \<and> c1 \<le> 105"
    then have "c1 \<in> {100, 101, 102, 103, 104, 105}" by auto
    then show "getShotRange c1 = ''three''" by (rule range_three)
  qed
  have jump: "200 \<le> c2 \<and> c2 \<le> 204 \<longrightarrow> getShotRange c2 = ''jump''"
  proof
    assume "200 \<le> c2 \<and> c2 \<le> 204"
    then have "c2 \<in> {200, 201, 202, 203, 204}" by auto
    then show "getShotRange c2 = ''jump''" by (rule range_jump)
  qed
  have close: "401 \<le> c3 \<and> c3 \<le> 411 \<longrightarrow> getShotRange c3 = ''paint''"
  proof
    assume "401 \<le> c3 \<and> c3 \<le> 411"
    then have "c3 \<notin> {100, 101, 102, 103, 104, 105}" and "c3 \<notin> {200, 201, 202, 203, 204}"
      by auto
    then show "getShotRange c3 = ''paint''" by (rule range_paint)
  qed
  have other: "\<not> (100 \<le> c4 \<and> c4 \<le> 105) \<and> \<not> (200 \<le> c4 \<and> c4 \<le> 204)
      \<longrightarrow> getShotRange c4 = ''paint''"
  proof
    assume "\<not> (100 \<le> c4 \<and> c4 \<le> 105) \<and> \<not> (200 \<le> c4 \<and> c4 \<le> 204)"
    then have "c4 \<notin> {100, 101, 102, 103, 104, 105}" and "c4 \<notin> {200, 201, 202, 203, 204}"
      by auto
    then show "getShotRange c4 = ''paint''" by (rule range_paint)
  qed
  from three jump close other getShotRange_keys [of c5] show ?thesis by blast
qed

theorem getShotRange_total_witness:
  "getShotRange 103 = ''three'' \<and> getShotRange 202 = ''jump''
   \<and> getShotRange 406 = ''paint'' \<and> getShotRange 999 = ''paint''"
  using getShotRange_total [of 103 202 406 999 0] by simp

section \<open>Slot resolution\<close>

lemma normalizeSlot_Some:
  "normalizeSlot rt rawSlot N = Some i \<Longrightarrow>
   0 \<le> i \<and> i + 1 \<le> of_nat N \<and> js_Number rt rawSlot = Finite (i + 1)"
  by (auto simp: normalizeSlot_def split: jsnum.splits if_splits)

lemma normalizeSlot_whole:
  "js_Number rt rawSlot = Finite (of_int s) \<Longrightarrow>
   normalizeSlot rt rawSlot N = (if 1 \<le> s \<and> s \<le> int N then Some (of_int (s - 1)) else None)"
  by (simp add: normalizeSlot_def)

lemma js_strict_eq_same: "js_strict_eq x y \<Longrightarrow> x = y"
  by (simp add: js_strict_eq_def)

lemma array_position_Some:
  "array_position len idx = Some i \<longleftrightarrow> i < len \<and> idx = of_nat i"
proof -
  have "find (\<lambda>i. of_nat i = idx) [0 ..< len] = Some i \<longleftrightarrow> i < len \<and> idx = of_nat i"
    by (auto simp: find_Some_iff)
  then show ?thesis by (simp add: array_position_def)
qed

lemma array_position_None:
  "array_position len idx = None \<longleftrightarrow> (\<forall>i < len. idx \<noteq> of_nat i)"
  by (auto simp: array_position_def find_None_iff)

lemma half_is_no_position: "array_position len (1 / 2) = None"
proof -
  have "(1 / 2 :: rat) \<noteq> of_nat i" for i
  proof
    assume "(1 / 2 :: rat) = of_nat i"
    then have "(1 :: rat) = of_nat (2 * i)" by simp
    then have "(1 :: nat) = 2 * i" using of_nat_eq_iff [where 'a = rat, of 1 "2 * i"] by simp
    then show False by presburger
  qed
  then show ?thesis by (simp add: array_position_None)
qed

text \<open>
  C2, at the inputs where the script breaks it. \<open>normalizeSlot\<close> tests that the
  converted slot is finite and lies between 1 and the roster's length, and returns
  \<^verbatim>\<open>null\<close> on every other path, but it never tests that the slot is a whole number.
  For the slot 1.5 on a roster of two it returns 0.5, which is no roster index:
  \<open>buildOffenseByRange\<close> reads the row at 0.5, finds nothing there and throws, and the
  defender panel takes a defender slot of 1.5 for a resolved defender. It has no test of
  the type either: the slot \<^verbatim>\<open>true\<close> converts to 1 and resolves to roster index 0.
\<close>

theorem normalizeSlot_fraction:
  "normalizeSlot rt (JSNumber (Finite (3 / 2))) 2 = Some (1 / 2)
   \<and> normalizeSlot rt (JSBoolean True) 2 = Some 0
   \<and> buildOffenseByRange rt example_home example_away (Finite 0) [shot_fraction_slot]
       = Inl TypeError
   \<and> shots_defended
       (renderDefenderShotPanel rt example_home example_away {} {} {}
          [shot_fraction_slot\<lparr>defender := JSNumber (Finite (3 / 2))\<rparr>]) = 1"
proof -
  have n: "normalizeSlot rt (JSNumber (Finite (3 / 2))) 2 = Some (1 / 2)"
    by (simp add: normalizeSlot_def)
  have b: "normalizeSlot rt (JSBoolean True) 2 = Some 0"
    by (simp add: normalizeSlot_def)
  have home: "getTeamBySide example_home example_away (Finite 0) = example_home"
    by (simp add: getTeamBySide_def js_strict_eq_def)
  have away: "getTeamBySide example_home example_away (Finite 1) = example_away"
    by (simp add: getTeamBySide_def js_strict_eq_def)
  have len: "length (team_players example_home) = 2" "length (team_players example_away) = 2"
    by (simp_all add: example_home_def example_away_def)
  have row: "emptyByRange example_home (getShotRange 100) =
      Some [\<lparr>entry_name = ''Ann'', entry_a = 0, entry_m = 0\<rparr>,
            \<lparr>entry_name = ''Bea'', entry_a = 0, entry_m = 0\<rparr>]"
    using range_three [of 100] by (simp add: emptyByRange_def example_home_def)
  have t: "buildOffenseByRange rt example_home example_away (Finite 0) [shot_fraction_slot]
       = Inl TypeError"
    by (simp add: buildOffenseByRange_def home len countByRange_def shot_fraction_slot_def
        js_strict_eq_def n row half_is_no_position)
  have d: "shots_defended
       (renderDefenderShotPanel rt example_home example_away {} {} {}
          [shot_fraction_slot\<lparr>defender := JSNumber (Finite (3 / 2))\<rparr>]) = 1"
    by (simp add: renderDefenderShotPanel_def Let_def filteredShots_def defenderShots_def
        shot_fraction_slot_def away len n)
  from n b t d show ?thesis by simp
qed

text \<open>
  On the slots the feed is specified to carry the encoding is as the specification has
  it: a slot that converts to a whole number \<open>s\<close> resolves to \<open>s - 1\<close> when
  \<open>1 \<le> s \<le> N\<close> and to nothing otherwise; a slot that converts to \<open>NaN\<close> or to an
  infinity resolves to nothing.
\<close>

lemma normalizeSlot_encoding:
  "(js_Number rt rawSlot = Finite (of_int s) \<longrightarrow>
      normalizeSlot rt rawSlot N = (if 1 \<le> s \<and> s \<le> int N then Some (of_int (s - 1)) else None))
   \<and> (js_Number rt rawSlot \<in> {NaN, PosInfinity, NegInfinity} \<longrightarrow>
        normalizeSlot rt rawSlot N = None)"
  using normalizeSlot_whole [of rt rawSlot s N] by (auto simp: normalizeSlot_def)

section \<open>Shot outcomes in the two views\<close>

lemma made_iff: "js_String c \<in> madeResults \<longleftrightarrow> c \<in> {1, 2, 5}"
  by (simp add: madeResults_def js_String_eq_digit)

lemma blocked_iff: "js_String c \<in> blockedResults \<longleftrightarrow> c = 3"
  by (simp add: blockedResults_def js_String_eq_digit)

lemma missed_iff: "js_String c \<in> missedResults \<longleftrightarrow> c \<in> {0, 4}"
  by (simp add: missedResults_def js_String_eq_digit)

lemma addOffStat_buckets:
  "addOffStat cell c =
     (if c \<in> {1, 2, 5} then cell\<lparr>cell_a := cell_a cell + 1, cell_m := cell_m cell + 1\<rparr>
      else if c = 3 then cell\<lparr>cell_a := cell_a cell + 1, cell_b := cell_b cell + 1\<rparr>
      else cell\<lparr>cell_a := cell_a cell + 1, cell_mi := cell_mi cell + 1\<rparr>)"
  by (simp add: addOffStat_def Let_def made_iff blocked_iff missed_iff)

lemma panel_counts:
  "madeCount shots = length (filter (\<lambda>ev. shot_result ev \<in> {1, 2, 5}) shots)"
  "missedCount shots = length (filter (\<lambda>ev. shot_result ev \<in> {0, 3, 4}) shots)"
  "blockedCount shots = length (filter (\<lambda>ev. shot_result ev = 3) shots)"
  by (simp_all add: madeCount_def missedCount_def blockedCount_def js_String_eq_digit)

lemma made_or_missed:
  "\<forall>ev \<in> set shots. 0 \<le> shot_result ev \<and> shot_result ev \<le> 5 \<Longrightarrow>
   length (filter (\<lambda>ev. shot_result ev \<in> {1, 2, 5}) shots)
   + length (filter (\<lambda>ev. shot_result ev \<in> {0, 3, 4}) shots) = length shots"
proof (induction shots)
  case Nil
  then show ?case by simp
next
  case (Cons ev shots)
  from Cons.prems have "shot_result ev \<in> {0, 1, 2, 3, 4, 5}" by auto
  with Cons show ?case by auto
qed

text \<open>
  C1, as the script has it. \<open>addOffStat\<close>, for every result code it is called with, adds
  one attempt to the cell and one to exactly one of three buckets: made for the codes 1,
  2 and 5, blocked for the code 3, missed for every other code (0 and 4 among them). The
  defender panel counts differently. Over the shots it shows, when their codes are the
  six known ones (0 to 5), made against counts the codes 1, 2 and 5, missed against the
  codes 0, 3 and 4, and blocked the code 3: every shot shown is either made or missed
  against, and a blocked shot is in the missed count and in the blocked count.
\<close>

theorem shot_outcome_buckets:
  "addOffStat cell c =
     (if c \<in> {1, 2, 5} then cell\<lparr>cell_a := cell_a cell + 1, cell_m := cell_m cell + 1\<rparr>
      else if c = 3 then cell\<lparr>cell_a := cell_a cell + 1, cell_b := cell_b cell + 1\<rparr>
      else cell\<lparr>cell_a := cell_a cell + 1, cell_mi := cell_mi cell + 1\<rparr>)
   \<and> ((\<forall>ev \<in> set (filteredShots selT selR (defenderShots rt home away selD evs)).
           0 \<le> shot_result ev \<and> shot_result ev \<le> 5) \<longrightarrow>
        made_against (renderDefenderShotPanel rt home away selD selT selR evs) =
          length (filter (\<lambda>ev. shot_result ev \<in> {1, 2, 5})
                    (filteredShots selT selR (defenderShots rt home away selD evs)))
        \<and> missed_against (renderDefenderShotPanel rt home away selD selT selR evs) =
          length (filter (\<lambda>ev. shot_result ev \<in> {0, 3, 4})
                    (filteredShots selT selR (defenderShots rt home away selD evs)))
        \<and> blocked (renderDefenderShotPanel rt home away selD selT selR evs) =
          length (filter (\<lambda>ev. shot_result ev = 3)
                    (filteredShots selT selR (defenderShots rt home away selD evs)))
        \<and> made_against (renderDefenderShotPanel rt home away selD selT selR evs)
          + missed_against (renderDefenderShotPanel rt home away selD selT selR evs)
          = shots_defended (renderDefenderShotPanel rt home away selD selT selR evs))"
  using made_or_missed [of "filteredShots selT selR (defenderShots rt home away selD evs)"]
  by (simp add: addOffStat_buckets renderDefenderShotPanel_def Let_def panel_counts)

theorem shot_outcome_buckets_witness:
  "addOffStat zeroOffCell 7 = \<lparr>cell_a = 1, cell_m = 0, cell_mi = 1, cell_b = 0\<rparr>
   \<and> renderDefenderShotPanel example_engine example_home example_away {} {} {}
       [shot_made, shot_unresolved_blocked]
     = \<lparr>shots_defended = 2, made_against = 1, missed_against = 1, blocked = 1, with_foul = 0\<rparr>"
proof -
  have shown: "filteredShots {} {} (defenderShots example_engine example_home example_away {}
                  [shot_made, shot_unresolved_blocked]) = [shot_made, shot_unresolved_blocked]"
    by (simp add: filteredShots_def defenderShots_def shot_made_def shot_unresolved_blocked_def
        getTeamBySide_def js_strict_eq_def example_away_def normalizeSlot_def)
  have codes: "\<forall>ev \<in> set (filteredShots {} {}
                  (defenderShots example_engine example_home example_away {}
                     [shot_made, shot_unresolved_blocked])).
                 0 \<le> shot_result ev \<and> shot_result ev \<le> 5"
    unfolding shown by (simp add: shot_made_def shot_unresolved_blocked_def)
  have foul: "with_foul (renderDefenderShotPanel example_engine example_home example_away
                  {} {} {} [shot_made, shot_unresolved_blocked]) = 0"
    unfolding renderDefenderShotPanel_def Let_def shown
    by (simp add: foulCount_def shot_made_def shot_unresolved_blocked_def js_String_eq_digit)
  have total: "shots_defended (renderDefenderShotPanel example_engine example_home example_away
                  {} {} {} [shot_made, shot_unresolved_blocked]) = 2"
    unfolding renderDefenderShotPanel_def Let_def shown by simp
  from shot_outcome_buckets
         [of zeroOffCell 7 "{}" "{}" example_engine example_home example_away "{}"
             "[shot_made, shot_unresolved_blocked]"]
       codes
  have "addOffStat zeroOffCell 7 = \<lparr>cell_a = 1, cell_m = 0, cell_mi = 1, cell_b = 0\<rparr>"
    and "made_against (renderDefenderShotPanel example_engine example_home example_away
                  {} {} {} [shot_made, shot_unresolved_blocked]) = 1"
    and "missed_against (renderDefenderShotPanel example_engine example_home example_away
                  {} {} {} [shot_made, shot_unresolved_blocked]) = 1"
    and "blocked (renderDefenderShotPanel example_engine example_home example_away
                  {} {} {} [shot_made, shot_unresolved_blocked]) = 1"
    unfolding shown by (simp_all add: zeroOffCell_def shot_made_def shot_unresolved_blocked_def)
  with foul total show ?thesis
    by (cases "renderDefenderShotPanel example_engine example_home example_away {} {} {}
                 [shot_made, shot_unresolved_blocked]") simp
qed

text \<open>
  C1 as stated fails in the defender panel. With every box of the three filters checked,
  as the page starts, one blocked shot (code 3) with a resolved defender shows as one
  shot defended, one missed against and one blocked: it is counted as blocked and also
  as missed.
\<close>

theorem blocked_shot_counted_as_missed:
  "renderDefenderShotPanel example_engine example_home example_away
     {''0:0'', ''0:1'', ''1:0'', ''1:1''} {''100''} {''0'', ''1'', ''2'', ''3'', ''4'', ''5''}
     [shot_unresolved_blocked]
   = \<lparr>shots_defended = 1, made_against = 0, missed_against = 1, blocked = 1, with_foul = 0\<rparr>"
  by (simp add: renderDefenderShotPanel_def Let_def filteredShots_def defenderShots_def
      getTeamBySide_def js_strict_eq_def shot_unresolved_blocked_def example_home_def
      example_away_def normalizeSlot_def madeCount_def missedCount_def blockedCount_def
      foulCount_def js_String_def str_nat.simps digit_char_def)

section \<open>Shots whose attacker does not resolve\<close>

subsection \<open>What a cell of the offense shot profile counts\<close>

lemma addOffStat_a: "cell_a (addOffStat cell r) = cell_a cell + 1"
  by (simp add: addOffStat_def Let_def)

lemma countShot_at:
  "countShot rt side len p counts ev c =
     (if credited rt side len p ev \<and> shot_type ev = c
      then map_option (\<lambda>cell. addOffStat cell (shot_result ev)) (counts c)
      else counts c)"
  by (auto simp: countShot_def credited_def split: option.splits)

lemma countShot_None: "countShot rt side len p counts ev c = None \<longleftrightarrow> counts c = None"
  by (simp add: countShot_at)

lemma countShot_attempts:
  "attempts_at (countShot rt side len p counts ev) c =
     (if credited rt side len p ev \<and> shot_type ev = c \<and> counts c \<noteq> None
      then attempts_at counts c + 1 else attempts_at counts c)"
  by (auto simp: attempts_at_def countShot_at addOffStat_a split: option.splits)

lemma fold_countShot_None:
  "foldl (countShot rt side len p) counts evs c = None \<longleftrightarrow> counts c = None"
  by (induction evs arbitrary: counts) (simp_all add: countShot_None)

lemma fold_countShot_attempts:
  "counts c \<noteq> None \<Longrightarrow>
   attempts_at (foldl (countShot rt side len p) counts evs) c =
     attempts_at counts c
     + length (filter (\<lambda>ev. credited rt side len p ev \<and> shot_type ev = c) evs)"
proof (induction evs arbitrary: counts)
  case Nil
  then show ?case by simp
next
  case (Cons ev evs)
  have "countShot rt side len p counts ev c \<noteq> None"
    using Cons.prems by (simp add: countShot_None)
  then have "attempts_at (foldl (countShot rt side len p) (countShot rt side len p counts ev) evs) c =
      attempts_at (countShot rt side len p counts ev) c
      + length (filter (\<lambda>ev. credited rt side len p ev \<and> shot_type ev = c) evs)"
    by (rule Cons.IH)
  then show ?case using Cons.prems by (simp add: countShot_attempts)
qed

lemma zeroCounts_at:
  "zeroCounts codes c = (if c \<in> set codes then Some zeroOffCell else None)"
  by (induction codes) (simp_all add: zeroCounts_def)

lemma set_typeCodes: "set (typeCodes evs) = shot_type ` set evs"
  by (simp add: typeCodes_def)

lemma distinct_typeCodes: "distinct (typeCodes evs)"
  by (simp add: typeCodes_def)

lemma playerCounts_keys:
  "playerCounts rt side len p evs c \<noteq> None \<longleftrightarrow> c \<in> set (typeCodes evs)"
  by (simp add: playerCounts_def fold_countShot_None zeroCounts_at)

lemma playerCounts_attempts:
  "c \<in> set (typeCodes evs) \<Longrightarrow>
   attempts_at (playerCounts rt side len p evs) c =
     length (filter (\<lambda>ev. credited rt side len p ev \<and> shot_type ev = c) evs)"
proof -
  assume c: "c \<in> set (typeCodes evs)"
  then have "zeroCounts (typeCodes evs) c \<noteq> None" by (simp add: zeroCounts_at)
  then have "attempts_at (playerCounts rt side len p evs) c =
      attempts_at (zeroCounts (typeCodes evs)) c
      + length (filter (\<lambda>ev. credited rt side len p ev \<and> shot_type ev = c) evs)"
    unfolding playerCounts_def by (rule fold_countShot_attempts)
  moreover have "attempts_at (zeroCounts (typeCodes evs)) c = 0"
    using c by (simp add: attempts_at_def zeroCounts_at zeroOffCell_def)
  ultimately show ?thesis by simp
qed

subsection \<open>The Total column\<close>

lemma addCells_a: "cell_a (addCells out cell) = cell_a out + cell_a cell"
  by (simp add: addCells_def)

lemma sumOffCellAt_a:
  "cell_a (sumOffCellAt m out code) = cell_a out + attempts_at m code"
  by (simp add: sumOffCellAt_def attempts_at_def addCells_a split: option.splits)

lemma sumOffCells_fold:
  "cell_a (foldl (sumOffCellAt m) out codes) = cell_a out + sum_list (map (attempts_at m) codes)"
  by (induction codes arbitrary: out) (simp_all add: sumOffCellAt_a)

lemma sumOffCells_attempts:
  "cell_a (sumOffCells m codes) = sum_list (map (attempts_at m) codes)"
  by (simp add: sumOffCells_def sumOffCells_fold zeroOffCell_def)

lemma indicator_sum_distinct:
  "distinct cs \<Longrightarrow>
   sum_list (map (\<lambda>c. if k = c then 1 else 0) cs) = (if k \<in> set cs then 1 else (0::nat))"
  by (induction cs) auto

lemma count_by_code:
  "distinct cs \<Longrightarrow> f ` set xs \<subseteq> set cs \<Longrightarrow>
   sum_list (map (\<lambda>c. length (filter (\<lambda>x. P x \<and> f x = c) xs)) cs) = length (filter P xs)"
proof (induction xs)
  case Nil
  then show ?case by simp
next
  case (Cons x xs)
  have in_cs: "f x \<in> set cs" using Cons.prems by simp
  have split: "\<And>c. length (filter (\<lambda>x. P x \<and> f x = c) (x # xs)) =
      (if P x then (if f x = c then 1 else 0) else 0)
      + length (filter (\<lambda>x. P x \<and> f x = c) xs)"
    by simp
  have "sum_list (map (\<lambda>c. length (filter (\<lambda>x. P x \<and> f x = c) (x # xs))) cs) =
      sum_list (map (\<lambda>c. if P x then (if f x = c then 1 else 0) else 0) cs)
      + sum_list (map (\<lambda>c. length (filter (\<lambda>x. P x \<and> f x = c) xs)) cs)"
    unfolding split by (simp add: sum_list_addf)
  also have "sum_list (map (\<lambda>c. if P x then (if f x = c then 1 else 0) else 0) cs) =
      (if P x then 1 else (0::nat))"
    using indicator_sum_distinct [OF Cons.prems(1), of "f x"] in_cs by (cases "P x") simp_all
  also have "sum_list (map (\<lambda>c. length (filter (\<lambda>x. P x \<and> f x = c) xs)) cs) =
      length (filter P xs)"
    using Cons by simp
  finally show ?case by simp
qed

text \<open>A player's total attempts are the shots credited to the player.\<close>

lemma playerTotal_attempts:
  "cell_a (playerTotal rt side teamObj p evs) =
     length (filter (credited rt side (length (team_players teamObj)) p) evs)"
proof -
  let ?len = "length (team_players teamObj)"
  have "cell_a (playerTotal rt side teamObj p evs) =
      sum_list (map (attempts_at (playerCounts rt side ?len p evs)) (typeCodes evs))"
    by (simp add: playerTotal_def sumOffCells_attempts)
  also have "\<dots> =
      sum_list (map (\<lambda>c. length (filter (\<lambda>ev. credited rt side ?len p ev \<and> shot_type ev = c) evs))
                  (typeCodes evs))"
    by (rule arg_cong [where f = sum_list]) (simp add: playerCounts_attempts)
  also have "\<dots> = length (filter (credited rt side ?len p) evs)"
    by (rule count_by_code) (simp_all add: distinct_typeCodes set_typeCodes)
  finally show ?thesis .
qed

subsection \<open>The team rows\<close>

lemma addCountsAt_None: "addCountsAt counts tc k c = None \<longleftrightarrow> tc c = None"
  by (auto simp: addCountsAt_def split: option.splits)

lemma addCountsAt_attempts:
  "attempts_at (addCountsAt counts tc k) c =
     (if c = k \<and> tc c \<noteq> None \<and> counts c \<noteq> None
      then attempts_at tc c + attempts_at counts c else attempts_at tc c)"
  by (auto simp: addCountsAt_def attempts_at_def addCells_a split: option.splits)

lemma addCounts_None: "addCounts codes tc counts c = None \<longleftrightarrow> tc c = None"
  unfolding addCounts_def
  by (induction codes arbitrary: tc) (simp_all add: addCountsAt_None)

lemma addCounts_attempts:
  "distinct codes \<Longrightarrow>
   attempts_at (addCounts codes tc counts) c =
     (if c \<in> set codes \<and> tc c \<noteq> None \<and> counts c \<noteq> None
      then attempts_at tc c + attempts_at counts c else attempts_at tc c)"
  unfolding addCounts_def
proof (induction codes arbitrary: tc)
  case Nil
  then show ?case by simp
next
  case (Cons k codes)
  from Cons.prems have d: "distinct codes" and k: "k \<notin> set codes" by simp_all
  have "attempts_at (foldl (addCountsAt counts) (addCountsAt counts tc k) codes) c =
     (if c \<in> set codes \<and> addCountsAt counts tc k c \<noteq> None \<and> counts c \<noteq> None
      then attempts_at (addCountsAt counts tc k) c + attempts_at counts c
      else attempts_at (addCountsAt counts tc k) c)"
    by (rule Cons.IH [OF d])
  then show ?case using k by (auto simp: addCountsAt_None addCountsAt_attempts)
qed

lemma fold_addCounts_None:
  "foldl (\<lambda>tc p. addCounts codes tc (pc p)) tc ps c = None \<longleftrightarrow> tc c = None"
  by (induction ps arbitrary: tc) (simp_all add: addCounts_None)

lemma fold_addCounts_attempts:
  "distinct codes \<Longrightarrow> c \<in> set codes \<Longrightarrow> tc c \<noteq> None \<Longrightarrow> \<forall>p. pc p c \<noteq> None \<Longrightarrow>
   attempts_at (foldl (\<lambda>tc p. addCounts codes tc (pc p)) tc ps) c =
     attempts_at tc c + sum_list (map (\<lambda>p. attempts_at (pc p) c) ps)"
proof (induction ps arbitrary: tc)
  case Nil
  then show ?case by simp
next
  case (Cons p ps)
  have "addCounts codes tc (pc p) c \<noteq> None"
    using Cons.prems(3) by (simp add: addCounts_None)
  then have "attempts_at (foldl (\<lambda>tc p. addCounts codes tc (pc p))
                            (addCounts codes tc (pc p)) ps) c =
      attempts_at (addCounts codes tc (pc p)) c + sum_list (map (\<lambda>p. attempts_at (pc p) c) ps)"
    using Cons.prems by (intro Cons.IH) simp_all
  then show ?case using Cons.prems by (simp add: addCounts_attempts)
qed

lemma teamCounts_keys:
  "teamCounts rt side teamObj evs c \<noteq> None \<longleftrightarrow> c \<in> set (typeCodes evs)"
  by (simp add: teamCounts_def fold_addCounts_None zeroCounts_at)

lemma index_indicator:
  "sum_list (map (\<lambda>p. if k = p then 1 else 0) [0 ..< n]) = (if k < n then 1 else (0::nat))"
  by (induction n) auto

text \<open>A shot is credited to at most one player of the roster.\<close>

lemma one_player_credited:
  "sum_list (map (\<lambda>p. if credited rt side len p ev \<and> Q then 1 else 0) [0 ..< len]) =
     (if credited_to_some rt side len ev \<and> Q then 1 else (0::nat))"
proof (cases "\<exists>p < len. credited rt side len p ev")
  case True
  then obtain p0 where p0: "p0 < len" "credited rt side len p0 ev" by blast
  have cred: "\<And>p. credited rt side len p ev = (p0 = p)"
    using p0(2) unfolding credited_def by auto
  have some: "credited_to_some rt side len ev"
    using p0 unfolding credited_to_some_def list_ex_iff by auto
  show ?thesis
  proof (cases Q)
    case True
    have "sum_list (map (\<lambda>p. if credited rt side len p ev \<and> Q then 1 else 0) [0 ..< len]) =
        sum_list (map (\<lambda>p. if p0 = p then 1 else (0::nat)) [0 ..< len])"
      unfolding cred using True by simp
    also have "\<dots> = 1" using p0(1) unfolding index_indicator by simp
    also have "1 = (if credited_to_some rt side len ev \<and> Q then 1 else (0::nat))"
      using True some by simp
    finally show ?thesis .
  next
    case False
    then show ?thesis by simp
  qed
next
  case False
  then have no: "\<And>p. p \<in> set [0 ..< len] \<Longrightarrow> \<not> credited rt side len p ev" by simp
  then have none: "\<not> credited_to_some rt side len ev"
    unfolding credited_to_some_def list_ex_iff by blast
  have "map (\<lambda>p. if credited rt side len p ev \<and> Q then 1 else 0) [0 ..< len] =
      map (\<lambda>p. (0::nat)) [0 ..< len]"
    by (rule map_cong) (simp_all add: no del: set_upt)
  then have "sum_list (map (\<lambda>p. if credited rt side len p ev \<and> Q then 1 else 0) [0 ..< len]) =
      sum_list (map (\<lambda>p. (0::nat)) [0 ..< len])"
    by simp
  also have "\<dots> = 0" by simp
  also have "0 = (if credited_to_some rt side len ev \<and> Q then 1 else (0::nat))"
    using none by simp
  finally show ?thesis .
qed

lemma credited_over_roster:
  "sum_list (map (\<lambda>p. length (filter (\<lambda>ev. credited rt side len p ev \<and> shot_type ev = c) evs))
               [0 ..< len])
     = length (filter (\<lambda>ev. credited_to_some rt side len ev \<and> shot_type ev = c) evs)"
proof (induction evs)
  case Nil
  then show ?case by simp
next
  case (Cons ev evs)
  have split: "\<And>p. length (filter (\<lambda>ev. credited rt side len p ev \<and> shot_type ev = c) (ev # evs)) =
      (if credited rt side len p ev \<and> shot_type ev = c then 1 else 0)
      + length (filter (\<lambda>ev. credited rt side len p ev \<and> shot_type ev = c) evs)"
    by simp
  show ?case unfolding split
    by (simp add: sum_list_addf one_player_credited Cons.IH)
qed

lemma teamCounts_attempts:
  assumes c: "c \<in> set (typeCodes evs)"
  shows "attempts_at (teamCounts rt side teamObj evs) c =
     length (filter (\<lambda>ev. credited_to_some rt side (length (team_players teamObj)) ev
                          \<and> shot_type ev = c) evs)"
proof -
  let ?len = "length (team_players teamObj)"
  have z: "zeroCounts (typeCodes evs) c \<noteq> None" using c by (simp add: zeroCounts_at)
  have pk: "\<forall>p. playerCounts rt side ?len p evs c \<noteq> None" using c playerCounts_keys by blast
  have "attempts_at (teamCounts rt side teamObj evs) c =
      attempts_at (zeroCounts (typeCodes evs)) c
      + sum_list (map (\<lambda>p. attempts_at (playerCounts rt side ?len p evs) c) [0 ..< ?len])"
    unfolding teamCounts_def
    by (rule fold_addCounts_attempts
          [where pc = "\<lambda>p. playerCounts rt side ?len p evs" and tc = "zeroCounts (typeCodes evs)"
             and c = c and codes = "typeCodes evs",
           OF distinct_typeCodes c z pk])
  moreover have "attempts_at (zeroCounts (typeCodes evs)) c = 0"
    using c by (simp add: attempts_at_def zeroCounts_at zeroOffCell_def)
  ultimately show ?thesis using c
    by (simp add: playerCounts_attempts credited_over_roster)
qed

text \<open>
  A team's total attempts in the offense shot profile are its shots whose attacker
  resolves to a player of its roster.
\<close>

lemma teamTotal_attempts:
  "cell_a (teamTotal rt side teamObj evs) =
     length (filter (credited_to_some rt side (length (team_players teamObj))) evs)"
proof -
  let ?len = "length (team_players teamObj)"
  have "cell_a (teamTotal rt side teamObj evs) =
      sum_list (map (attempts_at (teamCounts rt side teamObj evs)) (typeCodes evs))"
    by (simp add: teamTotal_def sumOffCells_attempts)
  also have "\<dots> =
      sum_list (map (\<lambda>c. length (filter (\<lambda>ev. credited_to_some rt side ?len ev \<and> shot_type ev = c) evs))
                  (typeCodes evs))"
    by (rule arg_cong [where f = sum_list]) (simp add: teamCounts_attempts)
  also have "\<dots> = length (filter (credited_to_some rt side ?len) evs)"
    by (rule count_by_code) (simp_all add: distinct_typeCodes set_typeCodes)
  finally show ?thesis .
qed

subsection \<open>The range charts and the strengths view\<close>

lemma bumpRange_sum:
  "sumRangeCounts (bumpRange counts (getShotRange c)) = sumRangeCounts counts + 1"
  using getShotRange_keys [of c] by (auto simp: bumpRange_def sumRangeCounts_def)

lemma countTeamRange_sum:
  "sumRangeCounts (countTeamRange tside counts ev) =
     sumRangeCounts counts + (if js_strict_eq (attacking_team ev) tside then 1 else 0)"
  by (simp add: countTeamRange_def bumpRange_sum)

lemma teamRange_fold:
  "sumRangeCounts (foldl (countTeamRange tside) counts evs) =
   sumRangeCounts counts + length (filter (\<lambda>ev. js_strict_eq (attacking_team ev) tside) evs)"
  by (induction evs arbitrary: counts) (simp_all add: countTeamRange_sum)

text \<open>The team chart counts every shot of the selected side.\<close>

lemma teamRangeCounts_total:
  "sumRangeCounts (teamRangeCounts tside evs) =
     length (filter (\<lambda>ev. js_strict_eq (attacking_team ev) tside) evs)"
proof -
  have "sumRangeCounts emptyRangeCounts = 0"
    by (simp add: emptyRangeCounts_def sumRangeCounts_def)
  then show ?thesis by (simp add: teamRangeCounts_def teamRange_fold)
qed

lemma playerRangeCounts_skip:
  assumes "normalizeSlot rt (attacker ev)
             (length (team_players (getTeamBySide home away (attacking_team ev)))) = None"
  shows "playerRangeCounts rt home away pside pslot (evs1 @ ev # evs2) =
         playerRangeCounts rt home away pside pslot (evs1 @ evs2)"
proof (cases "js_strict_eq (attacking_team ev) pside")
  case True
  then have "attacking_team ev = pside" by (rule js_strict_eq_same)
  with assms show ?thesis by (simp add: playerRangeCounts_def countPlayerRange_def)
next
  case False
  then show ?thesis by (simp add: playerRangeCounts_def countPlayerRange_def)
qed

lemma forEach_skip:
  "(\<And>s. body s x = Inr s) \<Longrightarrow>
   forEach body s (xs @ x # ys) = forEach body s (xs @ ys)"
  by (induction xs arbitrary: s) (simp_all split: sum.splits)

lemma countByRange_skip:
  assumes "normalizeSlot rt (attacker ev)
             (length (team_players (getTeamBySide home away (attacking_team ev)))) = None"
  shows "countByRange rt teamSide (length (team_players (getTeamBySide home away teamSide)))
           out ev = Inr out"
proof (cases "js_strict_eq (attacking_team ev) teamSide")
  case True
  then have "attacking_team ev = teamSide" by (rule js_strict_eq_same)
  with assms show ?thesis by (simp add: countByRange_def)
next
  case False
  then show ?thesis by (simp add: countByRange_def)
qed

lemma buildOffenseByRange_skip:
  assumes "normalizeSlot rt (attacker ev)
             (length (team_players (getTeamBySide home away (attacking_team ev)))) = None"
  shows "buildOffenseByRange rt home away teamSide (evs1 @ ev # evs2) =
         buildOffenseByRange rt home away teamSide (evs1 @ evs2)"
  unfolding buildOffenseByRange_def Let_def
  by (rule forEach_skip) (rule countByRange_skip [OF assms])

lemma not_credited:
  assumes "normalizeSlot rt (attacker ev)
             (length (team_players (getTeamBySide home away (attacking_team ev)))) = None"
  shows "\<not> credited rt side (length (team_players (getTeamBySide home away (Finite (of_nat side)))))
             p ev"
proof
  assume c: "credited rt side (length (team_players (getTeamBySide home away (Finite (of_nat side)))))
               p ev"
  then have "attacking_team ev = Finite (of_nat side)"
    by (simp add: credited_def js_strict_eq_same)
  with assms c show False by (simp add: credited_def)
qed

lemma not_credited_to_some:
  assumes "normalizeSlot rt (attacker ev)
             (length (team_players (getTeamBySide home away (attacking_team ev)))) = None"
  shows "\<not> credited_to_some rt side
             (length (team_players (getTeamBySide home away (Finite (of_nat side))))) ev"
  unfolding credited_to_some_def list_ex_iff using not_credited [OF assms] by blast

text \<open>
  C3. Take a shot whose attacker slot does not resolve on the roster of its attacking
  team (\<open>normalizeSlot\<close> gives \<^verbatim>\<open>null\<close>: slot 0, a slot outside the roster, or no
  number), anywhere in the list of shots. With the shot or without it
  \<^item> every player's total attempts in the offense shot profile are the same, and so are
    the strengths view (\<open>buildOffenseByRange\<close>) and the player's range chart: no
    player is given the attempt;
  \<^item> the team's range chart, which counts every shot of the side, has one shot more (when
    the event's side is a number at all): the team is given the attempt there;
  \<^item> but the team's total attempts in the offense shot profile are the same too. The
    team rows there are the sums of the player rows, so the team is not given the
    attempt, and the two team displays of the page differ by this shot.
\<close>

theorem unresolved_attacker_counts:
  assumes "normalizeSlot rt (attacker ev)
             (length (team_players (getTeamBySide home away (attacking_team ev)))) = None"
  shows "cell_a (playerTotal rt side (getTeamBySide home away (Finite (of_nat side))) p
                   (evs1 @ ev # evs2))
           = cell_a (playerTotal rt side (getTeamBySide home away (Finite (of_nat side))) p
                       (evs1 @ evs2))
       \<and> cell_a (teamTotal rt side (getTeamBySide home away (Finite (of_nat side)))
                   (evs1 @ ev # evs2))
           = cell_a (teamTotal rt side (getTeamBySide home away (Finite (of_nat side)))
                       (evs1 @ evs2))
       \<and> buildOffenseByRange rt home away teamSide (evs1 @ ev # evs2)
           = buildOffenseByRange rt home away teamSide (evs1 @ evs2)
       \<and> playerRangeCounts rt home away pside pslot (evs1 @ ev # evs2)
           = playerRangeCounts rt home away pside pslot (evs1 @ evs2)
       \<and> sumRangeCounts (teamRangeCounts (attacking_team ev) (evs1 @ ev # evs2))
           = (if attacking_team ev = NaN then 0 else 1)
             + sumRangeCounts (teamRangeCounts (attacking_team ev) (evs1 @ evs2))"
proof -
  have "js_strict_eq (attacking_team ev) (attacking_team ev) \<longleftrightarrow> attacking_team ev \<noteq> NaN"
    by (simp add: js_strict_eq_def)
  then show ?thesis
    by (simp add: playerTotal_attempts teamTotal_attempts not_credited [OF assms]
        not_credited_to_some [OF assms] buildOffenseByRange_skip [OF assms]
        playerRangeCounts_skip [OF assms] teamRangeCounts_total)
qed

theorem unresolved_attacker_counts_witness:
  "normalizeSlot example_engine (attacker shot_unresolved_blocked)
     (length (team_players
        (getTeamBySide example_home example_away (attacking_team shot_unresolved_blocked))))
     = None
   \<and> cell_a (teamTotal example_engine 0 example_home
                [shot_made, shot_unresolved_blocked, shot_made])
       = cell_a (teamTotal example_engine 0 example_home [shot_made, shot_made])
   \<and> cell_a (playerTotal example_engine 0 example_home 0
                [shot_made, shot_unresolved_blocked, shot_made])
       = cell_a (playerTotal example_engine 0 example_home 0 [shot_made, shot_made])
   \<and> sumRangeCounts (teamRangeCounts (Finite 0) [shot_made, shot_unresolved_blocked, shot_made])
       = 1 + sumRangeCounts (teamRangeCounts (Finite 0) [shot_made, shot_made])"
proof -
  have side: "getTeamBySide example_home example_away (Finite 0) = example_home"
    by (simp add: getTeamBySide_def js_strict_eq_def)
  have h: "normalizeSlot example_engine (attacker shot_unresolved_blocked)
     (length (team_players
        (getTeamBySide example_home example_away (attacking_team shot_unresolved_blocked))))
     = None"
    by (simp add: shot_unresolved_blocked_def getTeamBySide_def js_strict_eq_def
        example_home_def normalizeSlot_def)
  from unresolved_attacker_counts
         [OF h, of 0 0 "[shot_made]" "[shot_made]" "Finite 0" "Finite 0" "Finite 0"]
  show ?thesis using h by (simp add: side shot_unresolved_blocked_def)
qed

text \<open>
  The numbers on the page, for the home team, after a made shot by slot 1, a blocked shot
  whose attacker slot, 9, is outside the roster of two, and another made shot by slot 1:
  the Total of the team's row in the offense shot profile shows 2 attempts, the team's
  range chart 3 shots. After the blocked shot alone they show 0 and 1.
\<close>

lemma team_displays_differ:
  "cell_a (teamTotal rt 0 example_home [shot_made, shot_unresolved_blocked, shot_made]) = 2
   \<and> sumRangeCounts (teamRangeCounts (Finite 0)
                        [shot_made, shot_unresolved_blocked, shot_made]) = 3
   \<and> cell_a (teamTotal rt 0 example_home [shot_unresolved_blocked]) = 0
   \<and> sumRangeCounts (teamRangeCounts (Finite 0) [shot_unresolved_blocked]) = 1"
proof -
  have made: "credited_to_some rt 0 2 shot_made"
    by (simp add: credited_to_some_def credited_def shot_made_def js_strict_eq_def
        normalizeSlot_def upt_rec)
  have unresolved: "\<not> credited_to_some rt 0 2 shot_unresolved_blocked"
    by (simp add: credited_to_some_def credited_def shot_unresolved_blocked_def
        normalizeSlot_def upt_rec)
  have len: "length (team_players example_home) = 2" by (simp add: example_home_def)
  show ?thesis
    by (simp add: teamTotal_attempts teamRangeCounts_total len made unresolved)
       (simp add: shot_made_def shot_unresolved_blocked_def js_strict_eq_def)
qed

section \<open>The shape of the serialized game\<close>

lemma update_fresh: "k \<notin> fst ` set al \<Longrightarrow> AList.update k v al = al @ [(k, v)]"
  by (induction al) auto

text \<open>
  The loop over the quarters never assigns to a key twice: the counter grows and its
  decimal rendering is injective, so every pass appends a key.
\<close>

lemma stats_by_quarter_append:
  "\<forall>k \<in> fst ` set stats. \<exists>j < n. k = ''q'' @ str_nat j \<Longrightarrow>
   stats_by_quarter f n xs stats =
     stats @ map (\<lambda>(j, stat). (''q'' @ str_nat j, f stat)) (enumerate n xs)"
proof (induction xs arbitrary: n stats)
  case Nil
  then show ?case by simp
next
  case (Cons x xs)
  have fresh: "''q'' @ str_nat n \<notin> fst ` set stats"
  proof
    assume "''q'' @ str_nat n \<in> fst ` set stats"
    with Cons.prems obtain j where "j < n" "''q'' @ str_nat n = ''q'' @ str_nat j" by blast
    then show False by (simp add: str_nat_inj)
  qed
  have keys: "\<forall>k \<in> fst ` set (stats @ [(''q'' @ str_nat n, f x)]).
                \<exists>j < Suc n. k = ''q'' @ str_nat j"
  proof
    fix k
    assume "k \<in> fst ` set (stats @ [(''q'' @ str_nat n, f x)])"
    then have "k \<in> fst ` set stats \<or> k = ''q'' @ str_nat n" by auto
    then show "\<exists>j < Suc n. k = ''q'' @ str_nat j"
    proof
      assume "k \<in> fst ` set stats"
      with Cons.prems obtain j where "j < n" "k = ''q'' @ str_nat j" by blast
      then show ?thesis using less_Suc_eq by blast
    next
      assume "k = ''q'' @ str_nat n"
      then show ?thesis by blast
    qed
  qed
  have "stats_by_quarter f n (x # xs) stats =
      stats_by_quarter f (Suc n) xs (stats @ [(''q'' @ str_nat n, f x)])"
    using update_fresh [OF fresh, of "f x"] by simp
  also have "\<dots> = (stats @ [(''q'' @ str_nat n, f x)])
      @ map (\<lambda>(j, stat). (''q'' @ str_nat j, f stat)) (enumerate (Suc n) xs)"
    by (rule Cons.IH [OF keys])
  finally show ?case by simp
qed

lemma serialize_stats_shape: "JDict (serialize_stats f sheet) = stats_object f sheet"
proof -
  have q: "stats_by_quarter f 1 (qtr sheet) [] =
      map (\<lambda>(j, stat). (''q'' @ str_nat j, f stat)) (enumerate 1 (qtr sheet))"
    using stats_by_quarter_append [of "[]" 1 f "qtr sheet"] by simp
  have "''total'' \<notin> fst ` set (map (\<lambda>(j, stat). (''q'' @ str_nat j, f stat))
                                  (enumerate 1 (qtr sheet)))"
    by auto
  then show ?thesis
    unfolding serialize_stats_def stats_object_def q by (simp add: update_fresh)
qed

lemma serialize_player_shape: "serialize_player ps p = player_object ps p"
  by (simp add: serialize_player_def player_object_def serialize_stats_shape)

lemma serialize_team_shape: "serialize_team ps ts t = team_object ps ts t"
  by (simp add: serialize_team_def team_object_def serialize_stats_shape
      serialize_player_shape)

text \<open>
  C5, as the code has it. For a game that holds at least two teams \<open>serialize_game\<close>
  returns the objects of its first two teams, under \<open>teamHome\<close> and \<open>teamAway\<close>,
  beside the events; on a game with fewer teams it raises \<^verbatim>\<open>IndexError\<close>. A team
  object has exactly the keys id, name, players and stats, in this order; its players are
  the roster in roster order, each with exactly the keys id, name, starter and stats; and
  a stats object has one key per accumulator of \<^verbatim>\<open>stats.qtr\<close>, \<open>q1\<close>, \<open>q2\<close>, ... up
  to the length of that list, whatever it is, in the order of the list, and then the key
  \<open>total\<close> with the full-game accumulator.
\<close>

theorem serialize_game_shape:
  "serialize_game ps ts tj g =
     (if length (teams g) < 2 then Inl IndexError
      else Inr (JDict [(''teamHome'', team_object ps ts (teams g ! 0)),
                       (''teamAway'', team_object ps ts (teams g ! 1)),
                       (''events'', JList (map tj (baseevents g)))]))"
proof (cases "length (teams g) < 2")
  case True
  then show ?thesis by (simp add: serialize_game_def Let_def)
next
  case False
  then have "0 < length (teams g)" and "1 < length (teams g)" by linarith+
  then show ?thesis using False
    by (simp add: serialize_game_def Let_def serialize_team_shape)
qed

theorem serialize_game_shape_witness:
  "serialize_game JInt JInt JStr \<lparr>teams = example_teams, baseevents = [''tip-off'']\<rparr> =
     Inr (JDict
       [(''teamHome'', JDict
           [(''id'', JInt 1), (''name'', JStr ''Home''),
            (''players'', JList
               [JDict [(''id'', JInt 11), (''name'', JStr ''Ann''), (''starter'', JBool True),
                       (''stats'', JDict [(''q1'', JInt 2), (''q2'', JInt 0), (''q3'', JInt 3),
                                          (''q4'', JInt 1), (''total'', JInt 6)])]]),
            (''stats'', JDict [(''q1'', JInt 2), (''q2'', JInt 0), (''q3'', JInt 3),
                               (''q4'', JInt 1), (''total'', JInt 6)])]),
        (''teamAway'', JDict
           [(''id'', JInt 2), (''name'', JStr ''Away''),
            (''players'', JList
               [JDict [(''id'', JInt 21), (''name'', JStr ''Cyd''), (''starter'', JBool False),
                       (''stats'', JDict [(''q1'', JInt 0), (''q2'', JInt 4), (''q3'', JInt 0),
                                          (''q4'', JInt 0), (''total'', JInt 4)])]]),
            (''stats'', JDict [(''q1'', JInt 0), (''q2'', JInt 4), (''q3'', JInt 0),
                               (''q4'', JInt 0), (''total'', JInt 4)])]),
        (''events'', JList [JStr ''tip-off''])])"
  using serialize_game_shape
          [of JInt JInt JStr "\<lparr>teams = example_teams, baseevents = [''tip-off'']\<rparr>"]
  by (simp add: example_teams_def team_object_def player_object_def stats_object_def
      str_nat.simps digit_char_def)

text \<open>
  C5 as stated fails on a game whose home team holds five accumulators in
  \<^verbatim>\<open>stats.qtr\<close> and whose list of teams has a third team: the home team's stats object
  has the key \<open>q5\<close> next to \<open>q1\<close> to \<open>q4\<close> and \<open>total\<close>, and the third team has no
  object in the output.
\<close>

theorem five_windows_serialized:
  "serialize_game JInt JInt JStr \<lparr>teams = five_window_teams, baseevents = []\<rparr> =
     Inr (JDict
       [(''teamHome'', JDict
           [(''id'', JInt 1), (''name'', JStr ''Home''), (''players'', JList []),
            (''stats'', JDict [(''q1'', JInt 2), (''q2'', JInt 0), (''q3'', JInt 3),
                               (''q4'', JInt 1), (''q5'', JInt 5), (''total'', JInt 11)])]),
        (''teamAway'', JDict
           [(''id'', JInt 2), (''name'', JStr ''Away''), (''players'', JList []),
            (''stats'', JDict [(''q1'', JInt 0), (''q2'', JInt 4), (''q3'', JInt 0),
                               (''q4'', JInt 0), (''total'', JInt 4)])]),
        (''events'', JList [])])"
  by (simp add: serialize_game_def Let_def five_window_teams_def serialize_team_def
      serialize_stats_def str_nat.simps digit_char_def)

section \<open>The report handler\<close>

lemma strip_examples:
  "strip (py '' bob '') = py ''bob''" "strip (py ''bob'') = py ''bob''"
  "strip (py ''s3cret'') = py ''s3cret''" "strip (py ''138595249'') = py ''138595249''"
  "strip [178] = [178]"
  by (simp_all add: strip_def py_isspace_def py_def)

text \<open>
  What the two tests of the handler reject: an empty trimmed field, and a trimmed match
  id that \<^verbatim>\<open>str.isdigit()\<close> refuses. The answer is the form with status 400, and
  \<^verbatim>\<open>generate_report\<close> has not been called.
\<close>

lemma report_rejects:
  assumes "strip (form_get form ''username'') = []
         \<or> strip (form_get form ''password'') = []
         \<or> strip (form_get form ''matchid'') = []
         \<or> \<not> isdigit digit_beyond (strip (form_get form ''matchid''))"
  shows "report digit_beyond generate_report form =
     (Inr (WithStatus
        (FORM_HTML
           \<lparr>form_error =
              (if strip (form_get form ''username'') = []
                  \<or> strip (form_get form ''password'') = []
                  \<or> strip (form_get form ''matchid'') = []
               then py ''All fields are required.'' else py ''Match ID must be numeric.''),
            form_username = strip (form_get form ''username''),
            form_password = strip (form_get form ''password''),
            form_matchid = strip (form_get form ''matchid'')\<rparr>)
        400),
      [])"
  using assms by (auto simp: report_def Let_def)

text \<open>
  C9 fails on a match id that \<^verbatim>\<open>str.isdigit()\<close> accepts and that is no decimal
  number. Submitted with the username \<open>bob\<close>, the password \<open>s3cret\<close> and the match id
  made of the one character superscript two (U+00B2, code point 178), the handler calls
  \<^verbatim>\<open>generate_report\<close> once, with these three values, and its answer is never a page
  with status 400, whatever \<^verbatim>\<open>generate_report\<close> does.
\<close>

theorem report_superscript_matchid:
  "snd (report digit_beyond generate_report form_superscript_matchid)
     = [([178], py ''bob'', py ''s3cret'')]
   \<and> (\<forall>pg. fst (report digit_beyond generate_report form_superscript_matchid)
             \<noteq> Inr (WithStatus pg 400))"
proof -
  have m: "strip (form_get form_superscript_matchid ''matchid'') = [178]"
    and u: "strip (form_get form_superscript_matchid ''username'') = py ''bob''"
    and p: "strip (form_get form_superscript_matchid ''password'') = py ''s3cret''"
    by (simp_all add: form_superscript_matchid_def form_get_def strip_examples)
  have nonempty: "py ''bob'' \<noteq> []" "py ''s3cret'' \<noteq> []" by (simp_all add: py_def)
  have d: "isdigit digit_beyond [178]" by (simp add: isdigit_def py_isdigit_char_def)
  show ?thesis
    unfolding report_def Let_def m u p
    by (simp add: nonempty d split: sum.splits py_raise.splits)
qed

text \<open>
  C10, as the handler has it. When the handler has called \<^verbatim>\<open>generate_report\<close>, the
  three values it passed are the trimmed username, match id and password of the form.
  When the call raised an exception of the class \<^verbatim>\<open>Exception\<close>, the answer is the
  form with status 500, rendered with the password field empty whatever password was
  submitted, with the trimmed username and the trimmed match id, and with the message
  \<^verbatim>\<open>Failed to generate report:\<close> followed by the exception's text, whatever that text
  holds. When it raised an exception outside \<^verbatim>\<open>Exception\<close>, the handler renders no
  page: the exception leaves the handler. When it returned, the answer is the report.
\<close>

theorem report_error_page:
  assumes "snd (report digit_beyond generate_report form) = [(m, u, p)]"
  shows "u = strip (form_get form ''username'')
       \<and> m = strip (form_get form ''matchid'')
       \<and> p = strip (form_get form ''password'')
       \<and> fst (report digit_beyond generate_report form) =
           (case generate_report m u p of
              Inl (Exception exc) \<Rightarrow>
                Inr (WithStatus
                       (FORM_HTML \<lparr>form_error = py ''Failed to generate report: '' @ exc,
                                   form_username = u, form_password = [],
                                   form_matchid = m\<rparr>)
                       500)
            | Inl (OutsideException exc) \<Rightarrow> Inl (OutsideException exc)
            | Inr report_json \<Rightarrow> Inr (Page (REPORT_HTML report_json m u)))"
  using assms
  by (auto simp: report_def Let_def split: if_splits sum.splits py_raise.splits)

theorem report_error_page_witness:
  "report (\<lambda>c. False) (\<lambda>m u p. Inl (Exception (py ''login failed'')) :: py_raise + json)
       form_padded_username =
     (Inr (WithStatus
        (FORM_HTML \<lparr>form_error = py ''Failed to generate report: login failed'',
                    form_username = py ''bob'', form_password = [],
                    form_matchid = py ''138595249''\<rparr>)
        500),
      [(py ''138595249'', py ''bob'', py ''s3cret'')])"
proof -
  have r: "snd (report (\<lambda>c. False)
                  (\<lambda>m u p. Inl (Exception (py ''login failed'')) :: py_raise + json)
                  form_padded_username) =
      [(py ''138595249'', py ''bob'', py ''s3cret'')]"
    by (simp add: report_def Let_def form_padded_username_def form_get_def strip_def
        py_isspace_def isdigit_def py_isdigit_char_def py_def)
  from report_error_page [OF r] r show ?thesis
    by (simp add: prod_eq_iff py_def)
qed

text \<open>
  C10 as stated fails in three ways. The username submitted as \<open>bob\<close> between two
  spaces is echoed as \<open>bob\<close>, trimmed and not unchanged. When
  \<^verbatim>\<open>generate_report\<close> raises an exception whose text quotes the password it was
  called with, the page shows the password, in its message. And when it raises
  \<^verbatim>\<open>SystemExit\<close>, which is outside \<^verbatim>\<open>Exception\<close>, the handler returns no page at
  all.
\<close>

theorem report_error_page_echo:
  "form_get form_padded_username ''username'' = py '' bob ''
   \<and> fst (report (\<lambda>c. False)
            (\<lambda>m u p. Inl (Exception (py ''wrong password '' @ p)) :: py_raise + json)
            form_padded_username) =
       Inr (WithStatus
              (FORM_HTML
                 \<lparr>form_error = py ''Failed to generate report: wrong password s3cret'',
                  form_username = py ''bob'', form_password = [],
                  form_matchid = py ''138595249''\<rparr>)
              500)
   \<and> fst (report (\<lambda>c. False)
            (\<lambda>m u p. Inl (OutsideException (py ''SystemExit'')) :: py_raise + json)
            form_padded_username) =
       Inl (OutsideException (py ''SystemExit''))"
  by (simp add: report_def Let_def form_padded_username_def form_get_def strip_def
      py_isspace_def isdigit_def py_isdigit_char_def py_def)

end
